theory Spec2Isabelle
  imports Complex_Main "HOL-Library.Sublist"
begin

section \<open>JavaScript numbers\<close>

text \<open>
  The program computes with JavaScript numbers. Prices, volumes and configuration values
  that enter the program are finite and are modelled as \<^typ>\<open>real\<close>; timestamps are
  integers of milliseconds (\<^typ>\<open>int\<close>). Rounding of doubles and the sign of zero are
  not modelled. A value the program computes by a division can leave the finite numbers
  (\<open>x / 0\<close> is an infinity, \<open>0 / 0\<close> is NaN), so computed indicator values are
  \<open>jsnum\<close>: a finite number, one of the infinities, or NaN, with the arithmetic and
  the comparisons JavaScript gives them.
\<close>

datatype jsnum = Fin real | PInf | NInf | NaN

fun jneg :: "jsnum \<Rightarrow> jsnum" where
  "jneg (Fin a) = Fin (- a)"
| "jneg PInf = NInf"
| "jneg NInf = PInf"
| "jneg NaN = NaN"

fun jadd :: "jsnum \<Rightarrow> jsnum \<Rightarrow> jsnum" where
  "jadd NaN _ = NaN"
| "jadd _ NaN = NaN"
| "jadd (Fin a) (Fin b) = Fin (a + b)"
| "jadd PInf NInf = NaN"
| "jadd NInf PInf = NaN"
| "jadd PInf _ = PInf"
| "jadd _ PInf = PInf"
| "jadd NInf _ = NInf"
| "jadd _ NInf = NInf"

definition jsub :: "jsnum \<Rightarrow> jsnum \<Rightarrow> jsnum" where
  "jsub a b = jadd a (jneg b)"

definition signed_inf :: "bool \<Rightarrow> jsnum" where
  "signed_inf positive = (if positive then PInf else NInf)"

fun jmul :: "jsnum \<Rightarrow> jsnum \<Rightarrow> jsnum" where
  "jmul NaN _ = NaN"
| "jmul _ NaN = NaN"
| "jmul (Fin a) (Fin b) = Fin (a * b)"
| "jmul (Fin a) PInf = (if a = 0 then NaN else signed_inf (0 < a))"
| "jmul (Fin a) NInf = (if a = 0 then NaN else signed_inf (a < 0))"
| "jmul PInf (Fin b) = (if b = 0 then NaN else signed_inf (0 < b))"
| "jmul NInf (Fin b) = (if b = 0 then NaN else signed_inf (b < 0))"
| "jmul PInf PInf = PInf"
| "jmul NInf NInf = PInf"
| "jmul PInf NInf = NInf"
| "jmul NInf PInf = NInf"

fun jdiv :: "jsnum \<Rightarrow> jsnum \<Rightarrow> jsnum" where
  "jdiv NaN _ = NaN"
| "jdiv _ NaN = NaN"
| "jdiv (Fin a) (Fin b) =
     (if b \<noteq> 0 then Fin (a / b) else if a = 0 then NaN else signed_inf (0 < a))"
| "jdiv (Fin a) _ = Fin 0"
| "jdiv PInf (Fin b) = signed_inf (0 \<le> b)"
| "jdiv NInf (Fin b) = signed_inf (b < 0)"
| "jdiv _ _ = NaN"

fun jabs :: "jsnum \<Rightarrow> jsnum" where
  "jabs (Fin a) = Fin \<bar>a\<bar>"
| "jabs PInf = PInf"
| "jabs NInf = PInf"
| "jabs NaN = NaN"

fun jlt :: "jsnum \<Rightarrow> jsnum \<Rightarrow> bool" where
  "jlt NaN _ = False"
| "jlt _ NaN = False"
| "jlt (Fin a) (Fin b) = (a < b)"
| "jlt _ NInf = False"
| "jlt PInf _ = False"
| "jlt _ _ = True"

definition jgt :: "jsnum \<Rightarrow> jsnum \<Rightarrow> bool" where
  "jgt a b = jlt b a"

text \<open>\<open>x === 0\<close> on a number: true of zero only, false of NaN.\<close>

definition js_is_zero :: "jsnum \<Rightarrow> bool" where
  "js_is_zero x = (x = Fin 0)"

text \<open>
  A \<open>null\<close> operand of an arithmetic operator is converted to \<open>0\<close>; the non-null
  assertion \<open>x!\<close> of TypeScript is erased at run time and does not check anything.
\<close>

definition num_of_nullable :: "jsnum option \<Rightarrow> jsnum" where
  "num_of_nullable x = (case x of None \<Rightarrow> Fin 0 | Some v \<Rightarrow> v)"

text \<open>\<open>xs.reduce((sum, val) => sum + val, 0)\<close>\<close>

definition jsum :: "jsnum list \<Rightarrow> jsnum" where
  "jsum xs = foldl jadd (Fin 0) xs"

section \<open>The ADX indicator\<close>

text \<open>
  Class \<open>ADX\<close>. The constructor refuses a length below 2; the length is a whole number
  of bars.
\<close>

record adx =
  adx_length :: nat
  trValues :: "real list"
  plusDMValues :: "real list"
  minusDMValues :: "real list"
  dxValues :: "jsnum list"
  prevHigh :: "real option"
  prevLow :: "real option"
  prevClose :: "real option"
  prevATR :: "jsnum option"
  prevPlusDI :: "jsnum option"
  prevMinusDI :: "jsnum option"
  adxValue :: "jsnum option"
  updateCount :: nat

datatype adx_error = LengthTooSmall

definition fresh_adx :: "nat \<Rightarrow> adx" where
  "fresh_adx n =
     \<lparr>adx_length = n, trValues = [], plusDMValues = [], minusDMValues = [],
      dxValues = [], prevHigh = None, prevLow = None, prevClose = None,
      prevATR = None, prevPlusDI = None, prevMinusDI = None, adxValue = None,
      updateCount = 0\<rparr>"

definition adx_new :: "nat \<Rightarrow> adx_error + adx" where
  "adx_new n = (if n < 2 then Inl LengthTooSmall else Inr (fresh_adx n))"

definition true_range :: "real \<Rightarrow> real \<Rightarrow> real \<Rightarrow> real" where
  "true_range high low pc = max (high - low) (max \<bar>high - pc\<bar> \<bar>low - pc\<bar>)"

definition plusDM_of :: "real \<Rightarrow> real \<Rightarrow> real \<Rightarrow> real \<Rightarrow> real" where
  "plusDM_of high low ph pl = (if high > ph \<and> low > pl then max (high - ph) 0 else 0)"

definition minusDM_of :: "real \<Rightarrow> real \<Rightarrow> real \<Rightarrow> real \<Rightarrow> real" where
  "minusDM_of high low ph pl = (if ph > high \<and> pl > low then max (pl - low) 0 else 0)"

definition set_prev :: "adx \<Rightarrow> real \<Rightarrow> real \<Rightarrow> real \<Rightarrow> adx" where
  "set_prev s high low close =
     s\<lparr>prevHigh := Some high, prevLow := Some low, prevClose := Some close\<rparr>"

text \<open>The three pushes and the three shifts, which hang on the length of \<open>trValues\<close> alone.\<close>

definition push_window :: "adx \<Rightarrow> real \<Rightarrow> real \<Rightarrow> real \<Rightarrow> adx" where
  "push_window s tr plusDM minusDM =
     (let trs = trValues s @ [tr];
          ps = plusDMValues s @ [plusDM];
          ms = minusDMValues s @ [minusDM]
      in if length trs > adx_length s
         then s\<lparr>trValues := tl trs, plusDMValues := tl ps, minusDMValues := tl ms\<rparr>
         else s\<lparr>trValues := trs, plusDMValues := ps, minusDMValues := ms\<rparr>)"

text \<open>
  \<open>atr\<close>, \<open>plusDI\<close> and \<open>minusDI\<close>: simple averages on the update that seeds them,
  Wilder's smoothing afterwards.
\<close>

definition directional_indexes :: "adx \<Rightarrow> real \<Rightarrow> real \<Rightarrow> real \<Rightarrow> jsnum \<times> jsnum \<times> jsnum" where
  "directional_indexes s tr plusDM minusDM =
     (let len = Fin (real (adx_length s))
      in if updateCount s = adx_length s + 1 then
           (let atr = jdiv (Fin (sum_list (trValues s))) len;
                avgPlusDM = jdiv (Fin (sum_list (plusDMValues s))) len;
                avgMinusDM = jdiv (Fin (sum_list (minusDMValues s))) len
            in (atr, jmul (jdiv avgPlusDM atr) (Fin 100), jmul (jdiv avgMinusDM atr) (Fin 100)))
         else
           (let alpha = jdiv (Fin 1) len;
                keep = jsub (Fin 1) alpha;
                pATR = num_of_nullable (prevATR s);
                atr = jadd (jmul pATR keep) (jmul (Fin tr) alpha);
                plusDM_smooth =
                  jadd (jmul (jmul (jdiv (num_of_nullable (prevPlusDI s)) (Fin 100)) pATR) keep)
                       (jmul (Fin plusDM) alpha);
                minusDM_smooth =
                  jadd (jmul (jmul (jdiv (num_of_nullable (prevMinusDI s)) (Fin 100)) pATR) keep)
                       (jmul (Fin minusDM) alpha)
            in (atr, jmul (jdiv plusDM_smooth atr) (Fin 100),
                jmul (jdiv minusDM_smooth atr) (Fin 100))))"

text \<open>What the update does with a new DX value.\<close>

definition accumulate_dx :: "adx \<Rightarrow> jsnum \<Rightarrow> adx" where
  "accumulate_dx s dx =
     (if updateCount s = adx_length s + 1 then s\<lparr>dxValues := dxValues s @ [dx]\<rparr>
      else if updateCount s > adx_length s + 1 then
        (case adxValue s of
           None \<Rightarrow>
             (let dxs = dxValues s @ [dx]
              in if length dxs \<ge> adx_length s
                 then s\<lparr>dxValues := dxs,
                        adxValue := Some (jdiv (jsum dxs) (Fin (real (length dxs))))\<rparr>
                 else s\<lparr>dxValues := dxs\<rparr>)
         | Some v \<Rightarrow>
             (let alpha = jdiv (Fin 1) (Fin (real (adx_length s)))
              in s\<lparr>adxValue := Some (jadd (jmul v (jsub (Fin 1) alpha)) (jmul dx alpha))\<rparr>))
      else s)"

definition adx_update :: "adx \<Rightarrow> real \<Rightarrow> real \<Rightarrow> real \<Rightarrow> jsnum option \<times> adx" where
  "adx_update s high low close =
     (case (prevHigh s, prevLow s, prevClose s) of
        (Some ph, Some pl, Some pc) \<Rightarrow>
          (let tr = true_range high low pc;
               plusDM = plusDM_of high low ph pl;
               minusDM = minusDM_of high low ph pl;
               s1 = push_window (s\<lparr>updateCount := updateCount s + 1\<rparr>) tr plusDM minusDM
           in if updateCount s1 < adx_length s1 + 1 then (None, set_prev s1 high low close)
              else
                (let (atr, plusDI, minusDI) = directional_indexes s1 tr plusDM minusDM;
                     diSum = jadd plusDI minusDI
                 in if js_is_zero diSum then (adxValue s1, set_prev s1 high low close)
                    else
                      (let dx = jmul (jdiv (jabs (jsub plusDI minusDI)) diSum) (Fin 100);
                           s2 = accumulate_dx s1 dx;
                           s3 = s2\<lparr>prevATR := Some atr, prevPlusDI := Some plusDI,
                                   prevMinusDI := Some minusDI\<rparr>;
                           s4 = set_prev s3 high low close
                       in (adxValue s4, s4))))
      | _ \<Rightarrow> (None, set_prev s high low close))"

text \<open>A bar as the indicator sees it: high, low, close.\<close>

type_synonym hlc = "real \<times> real \<times> real"

fun adx_run :: "adx \<Rightarrow> hlc list \<Rightarrow> adx" where
  "adx_run s [] = s"
| "adx_run s ((h, l, c) # bs) = adx_run (snd (adx_update s h l c)) bs"

text \<open>
  The update leaves through the \<open>diSum === 0\<close> exit: the warm-up count is reached and the
  two directional indexes add up to zero. No DX value is recorded on such an update.
\<close>

definition zero_sum_exit :: "adx \<Rightarrow> real \<Rightarrow> real \<Rightarrow> real \<Rightarrow> bool" where
  "zero_sum_exit s high low close =
     (case (prevHigh s, prevLow s, prevClose s) of
        (Some ph, Some pl, Some pc) \<Rightarrow>
          (let tr = true_range high low pc;
               plusDM = plusDM_of high low ph pl;
               minusDM = minusDM_of high low ph pl;
               s1 = push_window (s\<lparr>updateCount := updateCount s + 1\<rparr>) tr plusDM minusDM
           in \<not> updateCount s1 < adx_length s1 + 1 \<and>
              (let (atr, plusDI, minusDI) = directional_indexes s1 tr plusDM minusDM
               in js_is_zero (jadd plusDI minusDI)))
      | _ \<Rightarrow> False)"

fun no_zero_sum_exit :: "adx \<Rightarrow> hlc list \<Rightarrow> bool" where
  "no_zero_sum_exit s [] = True"
| "no_zero_sum_exit s ((h, l, c) # bs) =
     (\<not> zero_sum_exit s h l c \<and> no_zero_sum_exit (snd (adx_update s h l c)) bs)"

text \<open>
  What holds of an indicator of length \<open>L\<close> after \<open>n\<close> updates: the counter lags the
  calls by one, at most one DX value is recorded per update past the \<open>L\<close>-th, and the
  value is set only once \<open>L\<close> of them are there.
\<close>

definition adx_inv :: "nat \<Rightarrow> nat \<Rightarrow> adx \<Rightarrow> bool" where
  "adx_inv L n s \<longleftrightarrow>
     adx_length s = L \<and> updateCount s = n - 1 \<and>
     (if n = 0 then prevHigh s = None \<and> prevLow s = None \<and> prevClose s = None
      else prevHigh s \<noteq> None \<and> prevLow s \<noteq> None \<and> prevClose s \<noteq> None) \<and>
     length (dxValues s) + L \<le> max L (updateCount s) \<and>
     (adxValue s \<noteq> None \<longrightarrow> L \<le> length (dxValues s))"

text \<open>The same when no update so far left through the zero-sum exit.\<close>

definition adx_full :: "nat \<Rightarrow> adx \<Rightarrow> bool" where
  "adx_full L s \<longleftrightarrow>
     (if updateCount s < 2 * L
      then adxValue s = None \<and> length (dxValues s) = updateCount s - L
      else adxValue s \<noteq> None)"


text \<open>Two runs of bars for an indicator of length 2: steadily rising, and widening.\<close>

definition rising_bars :: "hlc list" where
  "rising_bars = [(10, 9, 9.5), (11, 10, 10.5), (12, 11, 11.5), (13, 12, 12.5), (14, 13, 13.5)]"

definition widening_bars :: "hlc list" where
  "widening_bars = [(10, 10, 10), (11, 9, 10), (12, 8, 10), (13, 7, 10), (14, 6, 10), (15, 5, 10)]"


section \<open>Shared types\<close>

datatype side = Long | Short | Flat

text \<open>\<open>SyntheticBar\<close>\<close>

record bar =
  startTime :: int
  endTime :: int
  b_open :: real
  b_high :: real
  b_low :: real
  b_close :: real
  b_volume :: real

text \<open>\<open>PositionState\<close>; an optional field that is absent is \<open>None\<close>.\<close>

record position_state =
  pos_side :: side
  pos_size :: real
  entryPrice :: "real option"
  openedAt :: "int option"

definition flat_position :: position_state where
  "flat_position = \<lparr>pos_side = Flat, pos_size = 0, entryPrice = None, openedAt = None\<rparr>"

text \<open>
  \<open>RiskConfig\<close>, the fields the modelled functions read. An absent \<open>useStopLoss\<close>
  is falsy and is \<open>False\<close> here.
\<close>

record risk_config =
  maxPositionSize :: real
  maxLeverage :: real
  maxFlipsPerHour :: real
  stopLossPct :: "real option"
  useStopLoss :: bool
  emergencyStopLoss :: "real option"
  adxThreshold :: "real option"

text \<open>\<open>AppConfig\<close>: the risk settings, which strategy runs, and its bar duration.\<close>

record app_config =
  risk :: risk_config
  isPeachHybrid :: bool
  timeframeMs :: int

text \<open>Truthiness of an optional number: absent and zero are falsy.\<close>

definition truthy :: "real option \<Rightarrow> bool" where
  "truthy x = (case x of None \<Rightarrow> False | Some v \<Rightarrow> v \<noteq> 0)"

text \<open>\<open>x || d\<close> on optional numbers.\<close>

definition or_else :: "real option \<Rightarrow> real \<Rightarrow> real" where
  "or_else x d = (case x of None \<Rightarrow> d | Some v \<Rightarrow> if v = 0 then d else v)"

definition or_else_time :: "int option \<Rightarrow> int \<Rightarrow> int" where
  "or_else_time x d = (case x of None \<Rightarrow> d | Some v \<Rightarrow> if v = 0 then d else v)"

text \<open>\<open>haystack.includes(needle)\<close>\<close>

fun str_includes :: "string \<Rightarrow> string \<Rightarrow> bool" where
  "str_includes [] needle = (needle = [])"
| "str_includes (c # cs) needle = (prefix needle (c # cs) \<or> str_includes cs needle)"

section \<open>The position state manager\<close>

text \<open>
  \<open>LocalPositionState\<close> and class \<open>PositionStateManager\<close>. The poller's strings are
  taken as what \<open>parseFloat\<close> reads from them: \<open>positionAmt\<close> as a number; the entry
  price and the profit as a number or, for a string that does not read as one, \<open>None\<close>,
  which \<open>|| 0\<close> turns into \<open>0\<close>. The clock (\<open>Date.now()\<close>) is an argument.
\<close>

record pending_order =
  po_side :: side
  po_size :: real
  po_timestamp :: int

record local_state =
  ls_size :: real
  ls_side :: side
  avgEntry :: real
  unrealizedPnl :: real
  lastUpdate :: int
  orderId :: "string option"
  pendingOrder :: "pending_order option"

record position_state_manager =
  state :: local_state
  reconciliationFailures :: nat


record rest_state =
  positionAmt :: real
  rest_entryPrice :: "real option"
  unrealizedProfit :: "real option"

record normalized =
  n_size :: real
  n_side :: side
  n_avgEntry :: real
  n_unrealizedPnl :: real

definition reconcile :: "normalized \<Rightarrow> normalized \<Rightarrow> bool" where
  "reconcile rest local =
     (let sizeMatch = (\<bar>n_size rest - n_size local\<bar> < 0.0001);
          sideMatch = (n_side rest = n_side local)
      in if n_side rest = Flat \<and> n_side local = Flat then sizeMatch \<and> sideMatch
         else
           (let entryMatch =
                  (n_avgEntry rest = 0 \<or>
                   \<bar>n_avgEntry rest - n_avgEntry local\<bar> / n_avgEntry rest < 0.01)
            in sizeMatch \<and> sideMatch \<and> entryMatch))"

definition adopt :: "position_state_manager \<Rightarrow> normalized \<Rightarrow> int \<Rightarrow> position_state_manager" where
  "adopt m rest now =
     m\<lparr>reconciliationFailures := 0,
       state := (state m)\<lparr>ls_size := n_size rest, ls_side := n_side rest,
                           avgEntry := n_avgEntry rest,
                           unrealizedPnl := n_unrealizedPnl rest, lastUpdate := now\<rparr>\<rparr>"

definition normalize_rest :: "rest_state \<Rightarrow> normalized" where
  "normalize_rest r =
     (let size = positionAmt r
      in \<lparr>n_size = \<bar>size\<bar>,
          n_side = (if size > 0 then Long else if size < 0 then Short else Flat),
          n_avgEntry = or_else (rest_entryPrice r) 0,
          n_unrealizedPnl = or_else (unrealizedProfit r) 0\<rparr>)"

definition normalize_local :: "local_state \<Rightarrow> normalized" where
  "normalize_local l =
     \<lparr>n_size = ls_size l, n_side = ls_side l, n_avgEntry = avgEntry l,
      n_unrealizedPnl = unrealizedPnl l\<rparr>"

definition updateFromRest ::
  "position_state_manager \<Rightarrow> rest_state \<Rightarrow> int \<Rightarrow> bool \<times> position_state_manager" where
  "updateFromRest m restState now =
     (let restStateNormalized = normalize_rest restState;
          localStateNormalized = normalize_local (state m)
      in if reconcile restStateNormalized localStateNormalized
         then (True, adopt m restStateNormalized now)
         else if n_side restStateNormalized = Flat \<and> n_side localStateNormalized \<noteq> Flat
         then (True, adopt m restStateNormalized now)
         else if n_side restStateNormalized \<noteq> Flat \<and> n_side localStateNormalized = Flat
         then (True, adopt m restStateNormalized now)
         else (False, m\<lparr>reconciliationFailures := reconciliationFailures m + 1\<rparr>))"




definition setPendingOrder :: "position_state_manager \<Rightarrow> pending_order \<Rightarrow> position_state_manager" where
  "setPendingOrder m order = m\<lparr>state := (state m)\<lparr>pendingOrder := Some order\<rparr>\<rparr>"

text \<open>\<open>updateLocalState\<close> as the runner calls it on an entry: side, size and entry price.\<close>

definition updateLocalState ::
  "position_state_manager \<Rightarrow> side \<Rightarrow> real \<Rightarrow> real \<Rightarrow> int \<Rightarrow> position_state_manager" where
  "updateLocalState m sd sz entry now =
     m\<lparr>state := (state m)\<lparr>ls_side := sd, ls_size := sz, avgEntry := entry, lastUpdate := now\<rparr>\<rparr>"

definition initial_manager :: "int \<Rightarrow> position_state_manager" where
  "initial_manager now =
     \<lparr>state = \<lparr>ls_size = 0, ls_side = Flat, avgEntry = 0, unrealizedPnl = 0, lastUpdate = now,
               orderId = None, pendingOrder = None\<rparr>,
      reconciliationFailures = 0\<rparr>"

section \<open>The runner\<close>

text \<open>
  Class \<open>BotRunner\<close>: the fields the admission gate, the protective exits and the
  reconciliation handler read and write. The executor is asynchronous and fallible; its
  answer to a call is an argument of the function that makes the call, and the calls made
  are recorded in \<open>executorCalls\<close>. An exception leaves the state as it was when it was
  thrown, so every function returns the state together with its result. Logging, event
  emission, trade statistics, persistence, the order tracker, the list of partial exits and
  the copy of the position side that the hybrid engine keeps for its exit check are left
  out: nothing below reads them.
\<close>

datatype signal_type = SLong | SShort

definition side_of :: "signal_type \<Rightarrow> side" where
  "side_of t = (case t of SLong \<Rightarrow> Long | SShort \<Rightarrow> Short)"

definition opposite_of :: "signal_type \<Rightarrow> side" where
  "opposite_of t = (case t of SLong \<Rightarrow> Short | SShort \<Rightarrow> Long)"

record trend_snapshot =
  bullStack :: bool
  bearStack :: bool
  longLook :: bool
  shortLook :: bool
  longTrig :: bool
  shortTrig :: bool

record indicator_snapshot =
  i_emaFast :: real
  i_emaMid :: real
  i_emaSlow :: real
  i_rsi :: "real option"
  i_adx :: "jsnum option"

record strategy_signal =
  sig_type :: signal_type
  reason :: string
  indicators :: indicator_snapshot
  trend :: trend_snapshot
  system :: "string option"

text \<open>\<open>TradeInstruction\<close>\<close>

record trade_instruction =
  ti_side :: signal_type
  ti_size :: real
  leverage :: real
  price :: real
  signalReason :: string
  timestamp :: int

type_synonym meta = "(string \<times> real) list"

datatype exec_call =
  EnterLong trade_instruction
| EnterShort trade_instruction
| ClosePosition string "meta option"

text \<open>The executor's promise resolves, or rejects with an error of the given message.\<close>

datatype exec_result = Resolved | Rejected string

datatype bot_error = ExecutionError string

record bot =
  position :: position_state
  flipHistory :: "int list"
  lastPositionEntryTime :: int
  tradingFrozen :: bool
  freezeUntil :: int
  lastBar :: "bar option"
  highestPrice :: "real option"
  lowestPrice :: "real option"
  consecutiveLosses :: nat
  lastLossTime :: int
  lastPositionCloseTime :: int
  usdtBalance :: real
  stateManager :: position_state_manager
  unfreezeTimers :: "int list"
  executorCalls :: "exec_call list"

definition HOUR_MS :: int where
  "HOUR_MS = 60 * 60 * 1000"

definition minHoldTimeMs :: int where
  "minHoldTimeMs = 300000"

definition initial_bot :: "int \<Rightarrow> bot" where
  "initial_bot now =
     \<lparr>position = flat_position, flipHistory = [], lastPositionEntryTime = 0,
      tradingFrozen = False, freezeUntil = 0, lastBar = None, highestPrice = None,
      lowestPrice = None, consecutiveLosses = 0, lastLossTime = 0, lastPositionCloseTime = 0,
      usdtBalance = 0, stateManager = initial_manager now, unfreezeTimers = [],
      executorCalls = []\<rparr>"

subsection \<open>Closing and entering\<close>

definition exit_price :: "position_state \<Rightarrow> meta option \<Rightarrow> real" where
  "exit_price pos m =
     (case m of
        None \<Rightarrow> or_else (entryPrice pos) 0
      | Some kv \<Rightarrow>
          (case map_of kv ''close'' of
             Some v \<Rightarrow> v
           | None \<Rightarrow>
               (case map_of kv ''price'' of
                  Some v \<Rightarrow> v
                | None \<Rightarrow> or_else (entryPrice pos) 0)))"

definition close_profit_pct :: "position_state \<Rightarrow> real \<Rightarrow> real" where
  "close_profit_pct pos exitPrice =
     (case entryPrice pos of
        None \<Rightarrow> 0
      | Some e \<Rightarrow>
          if e = 0 then 0
          else ((exitPrice - e) / e) * 100 * (if pos_side pos = Long then 1 else - 1))"

text \<open>\<open>this.lastBar?.endTime || Date.now()\<close>\<close>

definition close_time :: "bot \<Rightarrow> int \<Rightarrow> int" where
  "close_time st now = or_else_time (map_option endTime (lastBar st)) now"

definition is_reduce_only_rejection :: "string \<Rightarrow> bool" where
  "is_reduce_only_rejection msg \<longleftrightarrow>
     str_includes msg ''ReduceOnly Order is rejected'' \<or> str_includes msg ''-2022''"

definition closePosition ::
  "bot \<Rightarrow> string \<Rightarrow> meta option \<Rightarrow> exec_result \<Rightarrow> int \<Rightarrow> bot_error option \<times> bot" where
  "closePosition st why m resp now =
     (if pos_side (position st) = Flat then (None, st)
      else
        (let exitPrice = exit_price (position st) m;
             st1 = st\<lparr>executorCalls := executorCalls st @ [ClosePosition why m]\<rparr>
         in case resp of
              Rejected msg \<Rightarrow>
                if is_reduce_only_rejection msg
                then (None, st1\<lparr>lastPositionCloseTime := close_time st1 now,
                                position := flat_position\<rparr>)
                else (Some (ExecutionError msg), st1)
            | Resolved \<Rightarrow>
                (let st2 = st1\<lparr>highestPrice := None, lowestPrice := None\<rparr>;
                     profitPct = close_profit_pct (position st2) exitPrice;
                     st3 = (if profitPct < 0
                            then st2\<lparr>consecutiveLosses := consecutiveLosses st2 + 1,
                                     lastLossTime := now\<rparr>
                            else st2\<lparr>consecutiveLosses := 0\<rparr>)
                 in (None, st3\<lparr>lastPositionCloseTime := close_time st3 now,
                                position := flat_position\<rparr>))))"

definition is_balance_rejection :: "string \<Rightarrow> bool" where
  "is_balance_rejection msg \<longleftrightarrow>
     str_includes msg ''balance'' \<or> str_includes msg ''insufficient'' \<or>
     str_includes msg ''-2019''"

definition recordFlip :: "bot \<Rightarrow> int \<Rightarrow> bot" where
  "recordFlip st t = st\<lparr>flipHistory := flipHistory st @ [t]\<rparr>"

definition enterPosition ::
  "bot \<Rightarrow> signal_type \<Rightarrow> trade_instruction \<Rightarrow> exec_result \<Rightarrow> int \<Rightarrow> bot_error option \<times> bot" where
  "enterPosition st want order resp now =
     (let requiredMargin = jdiv (Fin (ti_size order)) (Fin (leverage order))
      in if jlt (Fin (usdtBalance st)) requiredMargin then (None, st)
         else
           (let st1 = st\<lparr>executorCalls := executorCalls st @
                          [if want = SLong then EnterLong order else EnterShort order]\<rparr>
            in case resp of
                 Rejected msg \<Rightarrow>
                   if is_balance_rejection msg then (None, st1)
                   else (Some (ExecutionError msg), st1)
               | Resolved \<Rightarrow>
                   (let m1 = setPendingOrder (stateManager st1)
                               \<lparr>po_side = side_of want, po_size = ti_size order,
                                po_timestamp = timestamp order\<rparr>;
                        st2 = st1\<lparr>stateManager := m1,
                                 position := \<lparr>pos_side = side_of want, pos_size = ti_size order,
                                              entryPrice = Some (price order),
                                              openedAt = Some (timestamp order)\<rparr>,
                                 lastPositionEntryTime := timestamp order,
                                 highestPrice := (if want = SLong then Some (price order) else None),
                                 lowestPrice := (if want = SShort then Some (price order) else None)\<rparr>;
                        st3 = st2\<lparr>stateManager :=
                                   updateLocalState (stateManager st2) (side_of want)
                                     (ti_size order) (price order) now\<rparr>
                    in (None, recordFlip st3 (timestamp order)))))"

subsection \<open>The admission gate\<close>

definition canFlip :: "app_config \<Rightarrow> bot \<Rightarrow> int \<Rightarrow> bool \<times> bot" where
  "canFlip cfg st ts =
     (let windowStart = ts - HOUR_MS;
          st1 = st\<lparr>flipHistory := filter (\<lambda>t. t \<ge> windowStart) (flipHistory st)\<rparr>
      in if real (length (flipHistory st1)) \<ge> maxFlipsPerHour (risk cfg) then (False, st1)
         else (True, st1))"

text \<open>
  The reasons a skipped signal is logged with: "2 consecutive losses (.. cooldown)",
  "ADX not ready", "Market not trending", "Insufficient R:R (..)", "RSI too extreme (..)",
  "2-bar cooldown after close (..)", "Flip budget exhausted", "Minimum hold time not met
  (..)". The figures inside the texts are not modelled.
\<close>

datatype skip_reason =
  LossCooldown
| AdxNotReady
| MarketNotTrending
| InsufficientRiskReward
| RsiTooExtreme
| CloseCooldown
| FlipBudgetExhausted
| MinHoldTimeNotMet

text \<open>
  What \<open>applySignal\<close> answers: \<open>true\<close> (\<open>Applied\<close>), \<open>false\<close> after logging a
  skip, or \<open>false\<close> without a log entry (no signal, or a signal for the side held).
\<close>

datatype outcome = Applied | Skipped skip_reason | Ignored

text \<open>
  What the gate reads from the dual-system engine: \<open>getIndicatorValues()\<close> (ADX, ATR,
  recent high and low, the RSI of the second system).
\<close>

record peach_indicators =
  pi_adx :: "jsnum option"
  pi_atr :: "real option"
  recentHigh :: "real option"
  recentLow :: "real option"
  v2_rsi :: "real option"

text \<open>\<open>PeachHybridEngine.shouldAllowTrading\<close>; the threshold defaults to 25.\<close>

definition shouldAllowTrading :: "jsnum option \<Rightarrow> real option \<Rightarrow> bool" where
  "shouldAllowTrading a thr =
     (case a of
        None \<Rightarrow> True
      | Some v \<Rightarrow> jgt v (Fin (case thr of None \<Rightarrow> 25 | Some t \<Rightarrow> t)))"

definition risk_reward_ratio :: "peach_indicators \<Rightarrow> signal_type \<Rightarrow> real \<Rightarrow> real \<Rightarrow> real" where
  "risk_reward_ratio ind ty entry atr =
     (if ty = SLong then
        (let atrStop = entry - atr * 1.5;
             stopLossPrice = (if truthy (recentLow ind) \<and> the (recentLow ind) < entry
                              then min (the (recentLow ind) * 0.999) atrStop else atrStop);
             riskDistance = entry - stopLossPrice;
             takeProfitPrice = entry + riskDistance * 2;
             rewardDistance = takeProfitPrice - entry
         in if riskDistance > 0 then rewardDistance / riskDistance else 0)
      else
        (let atrStop = entry + atr * 1.5;
             stopLossPrice = (if truthy (recentHigh ind) \<and> the (recentHigh ind) > entry
                              then max (the (recentHigh ind) * 1.001) atrStop else atrStop);
             riskDistance = stopLossPrice - entry;
             takeProfitPrice = entry - riskDistance * 2;
             rewardDistance = entry - takeProfitPrice
         in if riskDistance > 0 then rewardDistance / riskDistance else 0))"

definition peach_gates ::
  "app_config \<Rightarrow> peach_indicators \<Rightarrow> signal_type \<Rightarrow> bar \<Rightarrow> skip_reason option" where
  "peach_gates cfg ind ty b =
     (if pi_adx ind = None then Some AdxNotReady
      else if \<not> shouldAllowTrading (pi_adx ind) (adxThreshold (risk cfg))
      then Some MarketNotTrending
      else if truthy (pi_atr ind) \<and> the (pi_atr ind) > 0 \<and>
              risk_reward_ratio ind ty (b_close b) (the (pi_atr ind)) < 2
      then Some InsufficientRiskReward
      else
        (case v2_rsi ind of
           None \<Rightarrow> None
         | Some v2Rsi \<Rightarrow>
             if ty = SLong \<and> (v2Rsi < 30 \<or> v2Rsi > 75) then Some RsiTooExtreme
             else if ty = SShort \<and> (v2Rsi < 25 \<or> v2Rsi > 70) then Some RsiTooExtreme
             else None))"

text \<open>
  What one call of \<open>applySignal\<close> takes from outside: the clock where the loss cooldown
  is checked, the engine's indicators, and the executor's answers and the clock for the
  close and the entry it may make.
\<close>

record gate_env =
  clockGate :: int
  engine :: peach_indicators
  closeResp :: exec_result
  clockClose :: int
  enterResp :: exec_result
  clockEnter :: int

text \<open>
  The two branches of \<open>applySignal\<close>, for a long and for a short signal, are the same
  text with the sides exchanged; \<open>admit\<close> is that text with the wanted side as argument.
  Its last steps are named: \<open>flip_close\<close> closes the position held on the other side,
  \<open>close_then_enter\<close> does that and enters the new one.
\<close>

definition flip_close :: "bot \<Rightarrow> signal_type \<Rightarrow> bar \<Rightarrow> gate_env \<Rightarrow> bot_error option \<times> bot" where
  "flip_close st want b env =
     (if pos_side (position st) = opposite_of want
      then closePosition st (if want = SLong then ''flip-long'' else ''flip-short'')
             (Some [(''price'', b_close b)]) (closeResp env) (clockClose env)
      else (None, st))"

definition close_then_enter ::
  "bot \<Rightarrow> signal_type \<Rightarrow> trade_instruction \<Rightarrow> bar \<Rightarrow> gate_env \<Rightarrow> (bot_error + outcome) \<times> bot" where
  "close_then_enter st want order b env =
     (case flip_close st want b env of
        (Some e, st2) \<Rightarrow> (Inl e, st2)
      | (None, st2) \<Rightarrow>
          (case enterPosition st2 want order (enterResp env) (clockEnter env) of
             (Some e, st3) \<Rightarrow> (Inl e, st3)
           | (None, st3) \<Rightarrow> (Inr Applied, st3)))"

definition admit ::
  "app_config \<Rightarrow> bot \<Rightarrow> signal_type \<Rightarrow> trade_instruction \<Rightarrow> bar \<Rightarrow> gate_env \<Rightarrow>
     (bot_error + outcome) \<times> bot" where
  "admit cfg st want order b env =
     (let ts = endTime b;
          minTimeAfterClose = 2 * timeframeMs cfg
      in if pos_side (position st) = side_of want then (Inr Ignored, st)
         else if lastPositionCloseTime st > 0 \<and> ts - lastPositionCloseTime st < minTimeAfterClose
         then (Inr (Skipped CloseCooldown), st)
         else
           (case canFlip cfg st ts of
              (False, st1) \<Rightarrow> (Inr (Skipped FlipBudgetExhausted), st1)
            | (True, st1) \<Rightarrow>
                if pos_side (position st1) = opposite_of want \<and>
                   ts - lastPositionEntryTime st1 < minHoldTimeMs
                then (Inr (Skipped MinHoldTimeNotMet), st1)
                else close_then_enter st1 want order b env))"

definition make_order :: "app_config \<Rightarrow> strategy_signal \<Rightarrow> bar \<Rightarrow> trade_instruction" where
  "make_order cfg sg b =
     \<lparr>ti_side = sig_type sg, ti_size = max (maxPositionSize (risk cfg)) 1,
      leverage = maxLeverage (risk cfg), price = b_close b, signalReason = reason sg,
      timestamp = endTime b\<rparr>"

text \<open>The gates that only the dual-system variant has.\<close>

definition strategy_gates ::
  "app_config \<Rightarrow> peach_indicators \<Rightarrow> signal_type \<Rightarrow> bar \<Rightarrow> skip_reason option" where
  "strategy_gates cfg ind ty b = (if isPeachHybrid cfg then peach_gates cfg ind ty b else None)"

text \<open>The loss counter once the cooldown has been found to be over.\<close>

definition after_cooldown :: "bot \<Rightarrow> bot" where
  "after_cooldown st = (if consecutiveLosses st \<ge> 2 then st\<lparr>consecutiveLosses := 0\<rparr> else st)"

definition applySignal ::
  "app_config \<Rightarrow> bot \<Rightarrow> strategy_signal option \<Rightarrow> bar \<Rightarrow> gate_env \<Rightarrow>
     (bot_error + outcome) \<times> bot" where
  "applySignal cfg st signal b env =
     (case signal of
        None \<Rightarrow> (Inr Ignored, st)
      | Some sg \<Rightarrow>
          if consecutiveLosses st \<ge> 2 \<and> clockGate env - lastLossTime st < 3600000
          then (Inr (Skipped LossCooldown), st)
          else
            (case strategy_gates cfg (engine env) (sig_type sg) b of
               Some r \<Rightarrow> (Inr (Skipped r), after_cooldown st)
             | None \<Rightarrow>
                 admit cfg (after_cooldown st) (sig_type sg) (make_order cfg sg b) b env))"

text \<open>
  What \<open>handleBarClose\<close> does with a bar on which the engine gave a signal that is let
  through (trading is not frozen, the signal is new): it remembers the bar as the last one
  and applies the signal.
\<close>

record gate_input =
  gi_signal :: strategy_signal
  gi_bar :: bar
  gi_env :: gate_env

definition deliver :: "app_config \<Rightarrow> bot \<Rightarrow> gate_input \<Rightarrow> (bot_error + outcome) \<times> bot" where
  "deliver cfg st x =
     applySignal cfg (st\<lparr>lastBar := Some (gi_bar x)\<rparr>) (Some (gi_signal x)) (gi_bar x) (gi_env x)"

fun run_signals ::
  "app_config \<Rightarrow> bot \<Rightarrow> gate_input list \<Rightarrow> (bot_error + outcome) list \<times> bot" where
  "run_signals cfg st [] = ([], st)"
| "run_signals cfg st (x # xs) =
     (case deliver cfg st x of
        (r, st1) \<Rightarrow> (case run_signals cfg st1 xs of (rs, st2) \<Rightarrow> (r # rs, st2)))"

text \<open>
  A signal is valid but for the flip budget when it would be applied, and the position
  taken, were the budget larger than the whole flip history.
\<close>

definition with_budget :: "app_config \<Rightarrow> real \<Rightarrow> app_config" where
  "with_budget cfg n = cfg\<lparr>risk := (risk cfg)\<lparr>maxFlipsPerHour := n\<rparr>\<rparr>"

definition otherwise_valid :: "app_config \<Rightarrow> bot \<Rightarrow> gate_input \<Rightarrow> bool" where
  "otherwise_valid cfg st x \<longleftrightarrow>
     (case deliver (with_budget cfg (real (length (flipHistory st)) + 1)) st x of
        (r, st') \<Rightarrow> r = Inr Applied \<and>
                   pos_side (position st') = side_of (sig_type (gi_signal x)))"

fun all_otherwise_valid :: "app_config \<Rightarrow> bot \<Rightarrow> gate_input list \<Rightarrow> bool" where
  "all_otherwise_valid cfg st [] = True"
| "all_otherwise_valid cfg st (x # xs) =
     (otherwise_valid cfg st x \<and> all_otherwise_valid cfg (snd (deliver cfg st x)) xs)"

text \<open>The flip timestamps that \<open>canFlip\<close> keeps at a given time.\<close>

definition recent_flips :: "bot \<Rightarrow> int \<Rightarrow> int list" where
  "recent_flips st ts = filter (\<lambda>t. t \<ge> ts - HOUR_MS) (flipHistory st)"

text \<open>The executor calls a step has added.\<close>

definition new_calls :: "bot \<Rightarrow> bot \<Rightarrow> exec_call list" where
  "new_calls st st' = drop (length (executorCalls st)) (executorCalls st')"

subsection \<open>Protective exits\<close>






definition track_extremes :: "bot \<Rightarrow> real \<Rightarrow> bot" where
  "track_extremes st close =
     (if pos_side (position st) = Long then
        (if highestPrice st = None \<or> close > the (highestPrice st)
         then st\<lparr>highestPrice := Some close\<rparr> else st)
      else if pos_side (position st) = Short then
        (if lowestPrice st = None \<or> close < the (lowestPrice st)
         then st\<lparr>lowestPrice := Some close\<rparr> else st)
      else st)"










subsection \<open>Reconciliation with the poller\<close>





section \<open>The strategy engines\<close>


subsection \<open>The trend-following engine\<close>












subsection \<open>The trend-bias system of the dual-system engine\<close>

















section \<open>Concrete configurations and inputs\<close>

text \<open>Small concrete values, used to run the model on examples.\<close>

definition example_risk :: risk_config where
  "example_risk =
     \<lparr>maxPositionSize = 0.5, maxLeverage = 5, maxFlipsPerHour = 2, stopLossPct = None,
      useStopLoss = True, emergencyStopLoss = Some 2, adxThreshold = Some 25\<rparr>"

definition watermellon_app :: app_config where
  "watermellon_app = \<lparr>risk = example_risk, isPeachHybrid = False, timeframeMs = 30000\<rparr>"


definition bar_at :: "int \<Rightarrow> real \<Rightarrow> bar" where
  "bar_at t c =
     \<lparr>startTime = t - 30000, endTime = t, b_open = c, b_high = c, b_low = c, b_close = c,
      b_volume = 1\<rparr>"

definition no_indicators :: peach_indicators where
  "no_indicators =
     \<lparr>pi_adx = None, pi_atr = None, recentHigh = None, recentLow = None, v2_rsi = None\<rparr>"

text \<open>The executor accepts every call; the clock shows \<open>t\<close>.\<close>

definition calm_env :: "int \<Rightarrow> gate_env" where
  "calm_env t =
     \<lparr>clockGate = t, engine = no_indicators, closeResp = Resolved, clockClose = t,
      enterResp = Resolved, clockEnter = t\<rparr>"

definition example_signal :: "signal_type \<Rightarrow> strategy_signal" where
  "example_signal ty =
     \<lparr>sig_type = ty, reason = (if ty = SLong then ''long-trigger'' else ''short-trigger''),
      indicators = \<lparr>i_emaFast = 3, i_emaMid = 2, i_emaSlow = 1, i_rsi = Some 60,
                    i_adx = Some (Fin 30)\<rparr>,
      trend = \<lparr>bullStack = (ty = SLong), bearStack = (ty = SShort), longLook = (ty = SLong),
               shortLook = (ty = SShort), longTrig = (ty = SLong), shortTrig = (ty = SShort)\<rparr>,
      system = None\<rparr>"

definition signal_at :: "signal_type \<Rightarrow> int \<Rightarrow> real \<Rightarrow> gate_input" where
  "signal_at ty t c = \<lparr>gi_signal = example_signal ty, gi_bar = bar_at t c, gi_env = calm_env t\<rparr>"

definition funded_bot :: bot where
  "funded_bot = (initial_bot 0)\<lparr>usdtBalance := 50\<rparr>"

text \<open>A long position of size 1 opened at price 100 at time 1000000.\<close>

definition long_bot :: bot where
  "long_bot =
     funded_bot\<lparr>position := \<lparr>pos_side = Long, pos_size = 1, entryPrice = Some 100,
                              openedAt = Some 1000000\<rparr>,
                lastPositionEntryTime := 1000000\<rparr>"

definition long_manager :: position_state_manager where
  "long_manager = updateLocalState (initial_manager 0) Long 1 100 5"

definition flat_report :: rest_state where
  "flat_report = \<lparr>positionAmt = 0, rest_entryPrice = Some 0, unrealizedProfit = Some 0\<rparr>"

definition short_report :: rest_state where
  "short_report = \<lparr>positionAmt = - 1, rest_entryPrice = Some 100, unrealizedProfit = Some 0\<rparr>"







text \<open>Two losses counted, the last at time 1000.\<close>

definition cooling_bot :: bot where
  "cooling_bot = funded_bot\<lparr>consecutiveLosses := 2, lastLossTime := 1000\<rparr>"

text \<open>A long entry, the flip to short five minutes later, and a flip back after five more.\<close>

definition three_flips :: "gate_input list" where
  "three_flips =
     [signal_at SLong 1000000 100, signal_at SShort 1300000 101, signal_at SLong 1600000 100]"


section \<open>Verification: the ADX indicator\<close>

lemma push_window_fields [simp]:
  "adx_length (push_window s a b c) = adx_length s"
  "updateCount (push_window s a b c) = updateCount s"
  "dxValues (push_window s a b c) = dxValues s"
  "adxValue (push_window s a b c) = adxValue s"
  "prevHigh (push_window s a b c) = prevHigh s"
  "prevLow (push_window s a b c) = prevLow s"
  "prevClose (push_window s a b c) = prevClose s"
  "prevATR (push_window s a b c) = prevATR s"
  "prevPlusDI (push_window s a b c) = prevPlusDI s"
  "prevMinusDI (push_window s a b c) = prevMinusDI s"
  by (simp_all add: push_window_def Let_def)

lemma set_prev_fields [simp]:
  "adx_length (set_prev s a b c) = adx_length s"
  "updateCount (set_prev s a b c) = updateCount s"
  "dxValues (set_prev s a b c) = dxValues s"
  "adxValue (set_prev s a b c) = adxValue s"
  "prevHigh (set_prev s a b c) = Some a"
  "prevLow (set_prev s a b c) = Some b"
  "prevClose (set_prev s a b c) = Some c"
  by (simp_all add: set_prev_def)

lemma accumulate_dx_fields [simp]:
  "adx_length (accumulate_dx s d) = adx_length s"
  "updateCount (accumulate_dx s d) = updateCount s"
  by (simp_all add: accumulate_dx_def Let_def split: option.splits)

lemma adx_inv_step:
  assumes "adx_inv L n s" "2 \<le> L"
  shows "adx_inv L (Suc n) (snd (adx_update s h l c))"
  using assms
  by (auto simp: adx_inv_def adx_update_def accumulate_dx_def Let_def
      split: option.splits prod.splits if_splits)

lemma adx_full_step:
  assumes "adx_inv L n s" "2 \<le> L" "adx_full L s" "\<not> zero_sum_exit s h l c"
  shows "adx_full L (snd (adx_update s h l c))"
  using assms
  by (auto simp: adx_inv_def adx_full_def zero_sum_exit_def adx_update_def accumulate_dx_def
      Let_def split: option.splits prod.splits if_splits)

lemma adx_run_snoc: "adx_run s (bs @ [(h, l, c)]) = snd (adx_update (adx_run s bs) h l c)"
  by (induction s bs rule: adx_run.induct) auto

lemma adx_run_append: "adx_run s (as @ bs) = adx_run (adx_run s as) bs"
  by (induction s as rule: adx_run.induct) auto

lemma no_zero_sum_exit_snoc:
  "no_zero_sum_exit s (bs @ [(h, l, c)]) \<longleftrightarrow>
     no_zero_sum_exit s bs \<and> \<not> zero_sum_exit (adx_run s bs) h l c"
  by (induction s bs rule: adx_run.induct) auto

lemma adx_inv_run:
  assumes "adx_inv L 0 s" "2 \<le> L"
  shows "adx_inv L (length bs) (adx_run s bs)"
proof (induction bs rule: rev_induct)
  case Nil
  then show ?case using assms by simp
next
  case (snoc b bs)
  obtain h l c where b: "b = (h, l, c)" by (cases b) auto
  show ?case using adx_inv_step[OF snoc assms(2)] by (simp add: b adx_run_snoc)
qed

lemma adx_full_run:
  assumes "adx_inv L 0 s" "2 \<le> L" "adx_full L s"
  shows "no_zero_sum_exit s bs \<Longrightarrow> adx_full L (adx_run s bs)"
proof (induction bs rule: rev_induct)
  case Nil
  then show ?case using assms by simp
next
  case (snoc b bs)
  obtain h l c where b: "b = (h, l, c)" by (cases b) auto
  from snoc.prems have nz: "no_zero_sum_exit s bs"
    and z: "\<not> zero_sum_exit (adx_run s bs) h l c"
    by (simp_all add: b no_zero_sum_exit_snoc)
  show ?case
    using adx_full_step[OF adx_inv_run[OF assms(1,2)] assms(2) snoc.IH[OF nz] z]
    by (simp add: b adx_run_snoc)
qed

lemma fresh_adx_inv: "adx_inv L 0 (fresh_adx L)"
  by (auto simp: fresh_adx_def adx_inv_def)

lemma fresh_adx_full: "2 \<le> L \<Longrightarrow> adx_full L (fresh_adx L)"
  by (auto simp: fresh_adx_def adx_full_def)

lemma adx_new_fresh: "adx_new L = Inr s \<Longrightarrow> s = fresh_adx L \<and> 2 \<le> L"
  by (auto simp: adx_new_def split: if_splits)

lemma adx_null_during_warmup:
  assumes "adx_new L = Inr s" "length bs \<le> 2 * L"
  shows "adxValue (adx_run s bs) = None"
proof -
  from adx_new_fresh[OF assms(1)] have s: "s = fresh_adx L" and L: "2 \<le> L" by auto
  from adx_inv_run[OF fresh_adx_inv L, of bs] have "adx_inv L (length bs) (adx_run s bs)"
    by (simp add: s)
  with assms(2) L show ?thesis by (auto simp: adx_inv_def)
qed

lemma adx_stays_ready:
  "adxValue s \<noteq> None \<Longrightarrow> adxValue (snd (adx_update s h l c)) \<noteq> None"
  by (auto simp: adx_update_def accumulate_dx_def Let_def
      split: option.splits prod.splits if_splits)

lemma adx_run_stays_ready: "adxValue s \<noteq> None \<Longrightarrow> adxValue (adx_run s bs) \<noteq> None"
  by (induction s bs rule: adx_run.induct) (simp_all add: adx_stays_ready)

lemma adx_ready_after_warmup:
  assumes "adx_new L = Inr s" "2 * L + 1 \<le> length bs"
    and "no_zero_sum_exit s (take (2 * L + 1) bs)"
  shows "adxValue (adx_run s bs) \<noteq> None"
proof -
  from adx_new_fresh[OF assms(1)] have s: "s = fresh_adx L" and L: "2 \<le> L" by auto
  let ?as = "take (2 * L + 1) bs"
  have len: "length ?as = 2 * L + 1" using assms(2) by simp
  have "adx_full L (adx_run s ?as)"
    using adx_full_run[OF fresh_adx_inv L fresh_adx_full[OF L]] assms(3) by (simp add: s)
  moreover have "adx_inv L (length ?as) (adx_run s ?as)"
    using adx_inv_run[OF fresh_adx_inv L, of ?as] by (simp only: s)
  ultimately have "adxValue (adx_run s ?as) \<noteq> None"
    unfolding len by (auto simp: adx_full_def adx_inv_def split: if_splits)
  then have "adxValue (adx_run (adx_run s ?as) (drop (2 * L + 1) bs)) \<noteq> None"
    by (rule adx_run_stays_ready)
  then show ?thesis by (simp flip: adx_run_append)
qed

lemmas adx_eval =
  adx_update_def push_window_def set_prev_def directional_indexes_def accumulate_dx_def
  true_range_def plusDM_of_def minusDM_of_def Let_def js_is_zero_def jsub_def jsum_def
  num_of_nullable_def fresh_adx_def zero_sum_exit_def signed_inf_def adx_new_def
  rising_bars_def widening_bars_def

text \<open>
  Claim C2, as the specification states it: for every length of at least 2 and every input
  sequence, the value of the ADX is null for the first \<open>2 * length + 1\<close> calls of
  \<open>update\<close> and non-null from call \<open>2 * length + 2\<close> on. The code does not do that.
  With length 2 the value is already set by the fifth call on steadily rising bars (the
  first DX value is recorded by the very update that seeds the directional indexes), and it
  is still null after the sixth call on widening bars, where neither directional movement
  is counted, the indexes add up to zero and no DX value is recorded.
\<close>

theorem adx_warmup_counterexample:
  "adx_new 2 = Inr (fresh_adx 2) \<and>
   adxValue (adx_run (fresh_adx 2) rising_bars) = Some (Fin 100) \<and>
   length rising_bars = 2 * 2 + 1 \<and>
   adxValue (adx_run (fresh_adx 2) widening_bars) = None \<and>
   length widening_bars = 2 * 2 + 2"
  by (simp add: adx_eval)

text \<open>
  Claim C2, amended: for every length of at least 2 and every input sequence the value is
  null for the first \<open>2 * length\<close> calls; it is non-null from call \<open>2 * length + 1\<close> on
  when none of the first \<open>2 * length + 1\<close> calls leaves through the zero-sum exit.
\<close>

theorem adx_warmup:
  assumes "adx_new L = Inr s"
  shows "(length bs \<le> 2 * L \<longrightarrow> adxValue (adx_run s bs) = None) \<and>
         (2 * L + 1 \<le> length bs \<and> no_zero_sum_exit s (take (2 * L + 1) bs) \<longrightarrow>
            adxValue (adx_run s bs) \<noteq> None)"
  using adx_null_during_warmup[OF assms] adx_ready_after_warmup[OF assms] by blast

theorem adx_warmup_witness:
  "adx_new 2 = Inr (fresh_adx 2) \<and>
   length (take 4 rising_bars) \<le> 2 * 2 \<and>
   adxValue (adx_run (fresh_adx 2) (take 4 rising_bars)) = None \<and>
   2 * 2 + 1 \<le> length rising_bars \<and>
   no_zero_sum_exit (fresh_adx 2) (take (2 * 2 + 1) rising_bars) \<and>
   adxValue (adx_run (fresh_adx 2) rising_bars) \<noteq> None"
  using adx_warmup[of 2 "fresh_adx 2" "take 4 rising_bars"]
    adx_warmup[of 2 "fresh_adx 2" rising_bars]
  by (simp add: adx_eval)









section \<open>Verification: the position state manager\<close>


lemma updateFromRest_success:
  "fst (updateFromRest m r now) \<Longrightarrow> snd (updateFromRest m r now) = adopt m (normalize_rest r) now"
  by (simp add: updateFromRest_def Let_def split: if_splits)


lemma normalize_rest_side: "n_side (normalize_rest r) = Flat \<longleftrightarrow> positionAmt r = 0"
  by (simp add: normalize_rest_def Let_def)

text \<open>
  Claim C6: on an authoritative refresh, when the authoritative view is flat and the local
  one is not, or the authoritative view is not flat and the local one is, \<open>updateFromRest\<close>
  returns true, the failure counter is zero afterwards, and the local state holds the
  authoritative size, side, entry price and profit (with the time of the refresh).
\<close>

theorem stale_local_adopted:
  assumes "(positionAmt r = 0 \<and> ls_side (state m) \<noteq> Flat) \<or>
           (positionAmt r \<noteq> 0 \<and> ls_side (state m) = Flat)"
  shows "fst (updateFromRest m r now) \<and>
         reconciliationFailures (snd (updateFromRest m r now)) = 0 \<and>
         state (snd (updateFromRest m r now)) =
           (state m)\<lparr>ls_size := \<bar>positionAmt r\<bar>,
                     ls_side := (if positionAmt r > 0 then Long
                                 else if positionAmt r < 0 then Short else Flat),
                     avgEntry := or_else (rest_entryPrice r) 0,
                     unrealizedPnl := or_else (unrealizedProfit r) 0,
                     lastUpdate := now\<rparr>"
proof -
  have ok: "fst (updateFromRest m r now)"
    using assms by (auto simp: updateFromRest_def Let_def normalize_rest_side normalize_local_def)
  show ?thesis
    using ok updateFromRest_success[OF ok]
    by (simp add: adopt_def normalize_rest_def Let_def)
qed

lemmas psm_eval = long_manager_def flat_report_def short_report_def updateLocalState_def initial_manager_def
  updateFromRest_def adopt_def normalize_rest_def normalize_local_def reconcile_def Let_def or_else_def

theorem stale_local_adopted_witness:
  "positionAmt flat_report = 0 \<and> ls_side (state long_manager) \<noteq> Flat \<and>
   fst (updateFromRest long_manager flat_report 7) \<and>
   reconciliationFailures (snd (updateFromRest long_manager flat_report 7)) = 0 \<and>
   ls_side (state (snd (updateFromRest long_manager flat_report 7))) = Flat \<and>
   ls_size (state (snd (updateFromRest long_manager flat_report 7))) = 0"
  using stale_local_adopted[of flat_report long_manager 7]
  by (simp add: psm_eval)










section \<open>Verification: closing a position\<close>

text \<open>
  Claim C8: when the executor rejects a close of an open position with a reduce-only
  rejection ("ReduceOnly Order is rejected" or code -2022), \<open>closePosition\<close> returns
  without an error, with the position flat and the close time recorded; any other
  rejection is thrown on as it is, and the position stays as it was.
\<close>

theorem close_rejected:
  assumes "pos_side (position st) \<noteq> Flat"
  shows "(is_reduce_only_rejection msg \<longrightarrow>
            closePosition st why m (Rejected msg) now =
              (None, st\<lparr>executorCalls := executorCalls st @ [ClosePosition why m],
                        lastPositionCloseTime := close_time st now,
                        position := flat_position\<rparr>)) \<and>
         (\<not> is_reduce_only_rejection msg \<longrightarrow>
            closePosition st why m (Rejected msg) now =
              (Some (ExecutionError msg),
               st\<lparr>executorCalls := executorCalls st @ [ClosePosition why m]\<rparr>))"
  using assms by (simp add: closePosition_def Let_def close_time_def)

theorem close_rejected_witness:
  "pos_side (position long_bot) \<noteq> Flat \<and>
   is_reduce_only_rejection ''code -2022: ReduceOnly Order is rejected.'' \<and>
   fst (closePosition long_bot ''stop-loss'' None
          (Rejected ''code -2022: ReduceOnly Order is rejected.'') 9) = None \<and>
   position (snd (closePosition long_bot ''stop-loss'' None
          (Rejected ''code -2022: ReduceOnly Order is rejected.'') 9)) = flat_position \<and>
   lastPositionCloseTime (snd (closePosition long_bot ''stop-loss'' None
          (Rejected ''code -2022: ReduceOnly Order is rejected.'') 9)) = 9 \<and>
   \<not> is_reduce_only_rejection ''timeout'' \<and>
   fst (closePosition long_bot ''stop-loss'' None (Rejected ''timeout'') 9) =
     Some (ExecutionError ''timeout'') \<and>
   position (snd (closePosition long_bot ''stop-loss'' None (Rejected ''timeout'') 9)) =
     position long_bot"
  using close_rejected[of long_bot "''code -2022: ReduceOnly Order is rejected.''"
      "''stop-loss''" None 9]
    close_rejected[of long_bot "''timeout''" "''stop-loss''" None 9]
  by (simp add: long_bot_def funded_bot_def initial_bot_def is_reduce_only_rejection_def
      close_time_def or_else_time_def)

section \<open>Verification: the admission gate\<close>

lemma closePosition_calls:
  "executorCalls (snd (closePosition st why m resp now)) =
     executorCalls st @ (if pos_side (position st) = Flat then [] else [ClosePosition why m])"
  by (simp add: closePosition_def Let_def split: exec_result.splits)

lemma enterPosition_calls:
  "executorCalls (snd (enterPosition st want order resp now)) =
     executorCalls st @
       (if jlt (Fin (usdtBalance st)) (jdiv (Fin (ti_size order)) (Fin (leverage order))) then []
        else [if want = SLong then EnterLong order else EnterShort order])"
  by (simp add: enterPosition_def Let_def recordFlip_def split: exec_result.splits)

lemma canFlip_fields [simp]:
  "executorCalls (snd (canFlip cfg st ts)) = executorCalls st"
  "position (snd (canFlip cfg st ts)) = position st"
  "consecutiveLosses (snd (canFlip cfg st ts)) = consecutiveLosses st"
  "lastPositionEntryTime (snd (canFlip cfg st ts)) = lastPositionEntryTime st"
  "usdtBalance (snd (canFlip cfg st ts)) = usdtBalance st"
  "flipHistory (snd (canFlip cfg st ts)) = filter (\<lambda>t. t \<ge> ts - HOUR_MS) (flipHistory st)"
  "fst (canFlip cfg st ts) \<longleftrightarrow>
     real (length (filter (\<lambda>t. t \<ge> ts - HOUR_MS) (flipHistory st))) < maxFlipsPerHour (risk cfg)"
  by (auto simp: canFlip_def Let_def)



lemma flip_close_calls:
  "\<exists>cs. executorCalls (snd (flip_close st want b env)) = executorCalls st @ cs \<and>
        (\<forall>c \<in> set cs. \<forall>x. c \<noteq> EnterLong x \<and> c \<noteq> EnterShort x)"
  by (simp add: flip_close_def closePosition_calls)

lemma close_then_enter_snd:
  "snd (close_then_enter st want order b env) = snd (flip_close st want b env) \<or>
   snd (close_then_enter st want order b env) =
     snd (enterPosition (snd (flip_close st want b env)) want order (enterResp env) (clockEnter env))"
proof (cases "flip_close st want b env")
  case (Pair e1 st2)
  show ?thesis
  proof (cases e1)
    case None
    obtain e2 st3 where e: "enterPosition st2 want order (enterResp env) (clockEnter env) = (e2, st3)"
      by (cases "enterPosition st2 want order (enterResp env) (clockEnter env)")
    show ?thesis by (cases e2) (simp_all add: close_then_enter_def Pair None e)
  next
    case (Some a)
    then show ?thesis by (simp add: close_then_enter_def Pair)
  qed
qed

lemma close_then_enter_calls:
  "\<exists>cs. executorCalls (snd (close_then_enter st want order b env)) = executorCalls st @ cs \<and>
        (\<forall>c \<in> set cs. \<forall>x. c = EnterLong x \<or> c = EnterShort x \<longrightarrow> x = order)"
proof -
  from flip_close_calls[of st want b env] obtain cs where
    cs: "executorCalls (snd (flip_close st want b env)) = executorCalls st @ cs"
        "\<forall>c \<in> set cs. \<forall>x. c \<noteq> EnterLong x \<and> c \<noteq> EnterShort x" by blast
  from close_then_enter_snd[of st want order b env] show ?thesis
  proof
    assume "snd (close_then_enter st want order b env) = snd (flip_close st want b env)"
    then show ?thesis using cs by (intro exI[of _ cs]) simp
  next
    assume a: "snd (close_then_enter st want order b env) =
     snd (enterPosition (snd (flip_close st want b env)) want order (enterResp env) (clockEnter env))"
    show ?thesis unfolding a enterPosition_calls cs(1) using cs(2) by auto
  qed
qed

lemma admit_cases:
  "admit cfg st want order b env = (Inr Ignored, st) \<and> pos_side (position st) = side_of want \<or>
   admit cfg st want order b env = (Inr (Skipped CloseCooldown), st) \<and>
     pos_side (position st) \<noteq> side_of want \<and>
     lastPositionCloseTime st > 0 \<and> endTime b - lastPositionCloseTime st < 2 * timeframeMs cfg \<or>
   admit cfg st want order b env =
       (Inr (Skipped FlipBudgetExhausted), snd (canFlip cfg st (endTime b))) \<and>
     pos_side (position st) \<noteq> side_of want \<and>
     \<not> (lastPositionCloseTime st > 0 \<and> endTime b - lastPositionCloseTime st < 2 * timeframeMs cfg) \<and>
     \<not> fst (canFlip cfg st (endTime b)) \<or>
   admit cfg st want order b env =
       (Inr (Skipped MinHoldTimeNotMet), snd (canFlip cfg st (endTime b))) \<and>
     pos_side (position st) = opposite_of want \<and>
     endTime b - lastPositionEntryTime st < minHoldTimeMs \<and>
     \<not> (lastPositionCloseTime st > 0 \<and> endTime b - lastPositionCloseTime st < 2 * timeframeMs cfg) \<and>
     fst (canFlip cfg st (endTime b)) \<or>
   admit cfg st want order b env =
       close_then_enter (snd (canFlip cfg st (endTime b))) want order b env \<and>
     pos_side (position st) \<noteq> side_of want \<and>
     \<not> (lastPositionCloseTime st > 0 \<and> endTime b - lastPositionCloseTime st < 2 * timeframeMs cfg) \<and>
     fst (canFlip cfg st (endTime b)) \<and>
     \<not> (pos_side (position st) = opposite_of want \<and>
        endTime b - lastPositionEntryTime st < minHoldTimeMs)"
proof (cases "canFlip cfg st (endTime b)")
  case (Pair ok st1)
  have f: "position st1 = position st" "lastPositionEntryTime st1 = lastPositionEntryTime st"
    using canFlip_fields(2,4)[of cfg st "endTime b"] by (simp_all add: Pair)
  show ?thesis
  proof (cases "pos_side (position st) = side_of want")
    case True
    then show ?thesis by (simp add: admit_def)
  next
    case ns: False
    show ?thesis
    proof (cases "lastPositionCloseTime st > 0 \<and>
                  endTime b - lastPositionCloseTime st < 2 * timeframeMs cfg")
      case True
      with ns show ?thesis by (simp add: admit_def)
    next
      case nc: False
      show ?thesis
      proof (cases ok)
        case False
        with ns nc show ?thesis by (simp add: admit_def Let_def Pair del: canFlip_fields)
      next
        case True
        show ?thesis
        proof (cases "pos_side (position st) = opposite_of want \<and>
                      endTime b - lastPositionEntryTime st < minHoldTimeMs")
          case True
          with ns nc \<open>ok\<close> show ?thesis by (simp add: admit_def Let_def Pair f del: canFlip_fields)
        next
          case False
          with ns nc \<open>ok\<close> show ?thesis by (simp add: admit_def Let_def Pair f del: canFlip_fields)
        qed
      qed
    qed
  qed
qed

lemma admit_calls:
  "\<exists>cs. executorCalls (snd (admit cfg st want order b env)) = executorCalls st @ cs \<and>
        (\<forall>c \<in> set cs. \<forall>x. c = EnterLong x \<or> c = EnterShort x \<longrightarrow> x = order) \<and>
        ((\<exists>x. EnterLong x \<in> set cs \<or> EnterShort x \<in> set cs) \<longrightarrow>
           real (length (filter (\<lambda>t. t \<ge> endTime b - HOUR_MS) (flipHistory st)))
             < maxFlipsPerHour (risk cfg))"
proof -
  let ?st1 = "snd (canFlip cfg st (endTime b))"
  from admit_cases[of cfg st want order b env]
  consider (early) "executorCalls (snd (admit cfg st want order b env)) = executorCalls st"
    | (enter) "fst (canFlip cfg st (endTime b))"
        "admit cfg st want order b env = close_then_enter ?st1 want order b env"
    by (elim disjE conjE) (simp_all del: canFlip_fields(7))
  then show ?thesis
  proof cases
    case early
    then show ?thesis by (intro exI[of _ "[]"]) simp
  next
    case enter
    from close_then_enter_calls[of ?st1 want order b env] obtain cs where
      "executorCalls (snd (close_then_enter ?st1 want order b env)) = executorCalls st @ cs"
      "\<forall>c \<in> set cs. \<forall>x. c = EnterLong x \<or> c = EnterShort x \<longrightarrow> x = order" by auto
    then show ?thesis unfolding enter(2) using enter(1) by (intro exI[of _ cs]) simp
  qed
qed

lemma after_cooldown_fields [simp]:
  "executorCalls (after_cooldown st) = executorCalls st"
  "flipHistory (after_cooldown st) = flipHistory st"
  "position (after_cooldown st) = position st"
  by (simp_all add: after_cooldown_def)

lemma applySignal_alt:
  "applySignal cfg st (Some s) b env =
     (if 2 \<le> consecutiveLosses st \<and> clockGate env - lastLossTime st < 3600000
      then (Inr (Skipped LossCooldown), st)
      else (case strategy_gates cfg (engine env) (sig_type s) b of
              Some r \<Rightarrow> (Inr (Skipped r), after_cooldown st)
            | None \<Rightarrow> admit cfg (after_cooldown st) (sig_type s) (make_order cfg s b) b env))"
  by (simp add: applySignal_def)

lemma applySignal_cases:
  "applySignal cfg st (Some s) b env = (Inr (Skipped LossCooldown), st) \<and>
     2 \<le> consecutiveLosses st \<and> clockGate env - lastLossTime st < 3600000 \<or>
   (\<exists>r. applySignal cfg st (Some s) b env = (Inr (Skipped r), after_cooldown st) \<and>
        strategy_gates cfg (engine env) (sig_type s) b = Some r) \<and>
     \<not> (2 \<le> consecutiveLosses st \<and> clockGate env - lastLossTime st < 3600000) \<or>
   applySignal cfg st (Some s) b env =
     admit cfg (after_cooldown st) (sig_type s) (make_order cfg s b) b env \<and>
     \<not> (2 \<le> consecutiveLosses st \<and> clockGate env - lastLossTime st < 3600000) \<and>
     strategy_gates cfg (engine env) (sig_type s) b = None"
proof (cases "2 \<le> consecutiveLosses st \<and> clockGate env - lastLossTime st < 3600000")
  case True
  then show ?thesis by (simp add: applySignal_alt)
next
  case False
  then show ?thesis
    by (cases "strategy_gates cfg (engine env) (sig_type s) b") (simp_all add: applySignal_alt)
qed

lemma applySignal_calls:
  "\<exists>cs. executorCalls (snd (applySignal cfg st sg b env)) = executorCalls st @ cs \<and>
        (\<forall>c \<in> set cs. \<forall>x. c = EnterLong x \<or> c = EnterShort x \<longrightarrow>
           ti_size x = max (maxPositionSize (risk cfg)) 1) \<and>
        ((\<exists>x. EnterLong x \<in> set cs \<or> EnterShort x \<in> set cs) \<longrightarrow>
           real (length (filter (\<lambda>t. t \<ge> endTime b - HOUR_MS) (flipHistory st)))
             < maxFlipsPerHour (risk cfg))"
proof (cases sg)
  case None
  then show ?thesis by (simp add: applySignal_def)
next
  case (Some s)
  let ?st0 = "after_cooldown st"
  from admit_calls[of cfg ?st0 "sig_type s" "make_order cfg s b" b env]
  obtain cs where cs: "executorCalls (snd (admit cfg ?st0 (sig_type s) (make_order cfg s b) b env))
       = executorCalls st @ cs"
     "\<forall>c \<in> set cs. \<forall>x. c = EnterLong x \<or> c = EnterShort x \<longrightarrow> x = make_order cfg s b"
     "(\<exists>x. EnterLong x \<in> set cs \<or> EnterShort x \<in> set cs) \<longrightarrow>
           real (length (filter (\<lambda>t. t \<ge> endTime b - HOUR_MS) (flipHistory st)))
             < maxFlipsPerHour (risk cfg)"
    by auto
  have sz: "ti_size (make_order cfg s b) = max (maxPositionSize (risk cfg)) 1"
    by (simp add: make_order_def)
  from applySignal_cases[of cfg st s b env]
  consider (admit) "applySignal cfg st (Some s) b env =
       admit cfg ?st0 (sig_type s) (make_order cfg s b) b env"
    | (none) "executorCalls (snd (applySignal cfg st (Some s) b env)) = executorCalls st"
    by (elim disjE conjE exE) simp_all
  then show ?thesis
  proof cases
    case admit
    have "\<forall>c \<in> set cs. \<forall>x. c = EnterLong x \<or> c = EnterShort x \<longrightarrow>
           ti_size x = max (maxPositionSize (risk cfg)) 1"
    proof (intro ballI allI impI)
      fix c x assume c: "c \<in> set cs" and x: "c = EnterLong x \<or> c = EnterShort x"
      from bspec[OF cs(2) c] have "c = EnterLong x \<or> c = EnterShort x \<longrightarrow> x = make_order cfg s b"
        by (rule spec)
      with x have "x = make_order cfg s b" by (rule mp[rotated])
      then show "ti_size x = max (maxPositionSize (risk cfg)) 1" by (simp only: sz)
    qed
    with cs(1,3) show ?thesis unfolding Some admit by (intro exI[of _ cs] conjI)
  next
    case none
    then show ?thesis unfolding Some by (intro exI[of _ "[]"]) simp
  qed
qed

text \<open>
  Claim C10: every order that \<open>applySignal\<close> hands to the executor has the size
  \<open>max maxPositionSize 1\<close>; with a configured maximum below 1 the size is 1, above the
  maximum.
\<close>

theorem order_size:
  "executorCalls (snd (applySignal cfg st sg b env)) =
     executorCalls st @ new_calls st (snd (applySignal cfg st sg b env)) \<and>
   (\<forall>x. EnterLong x \<in> set (new_calls st (snd (applySignal cfg st sg b env))) \<or>
        EnterShort x \<in> set (new_calls st (snd (applySignal cfg st sg b env))) \<longrightarrow>
        ti_size x = max (maxPositionSize (risk cfg)) 1 \<and>
        (maxPositionSize (risk cfg) < 1 \<longrightarrow>
           ti_size x = 1 \<and> maxPositionSize (risk cfg) < ti_size x))"
proof -
  from applySignal_calls[of cfg st sg b env] obtain cs where
    cs: "executorCalls (snd (applySignal cfg st sg b env)) = executorCalls st @ cs"
      "\<forall>c \<in> set cs. \<forall>x. c = EnterLong x \<or> c = EnterShort x \<longrightarrow>
           ti_size x = max (maxPositionSize (risk cfg)) 1"
    by blast
  then have n: "new_calls st (snd (applySignal cfg st sg b env)) = cs"
    by (simp add: new_calls_def)
  show ?thesis unfolding n using cs by auto
qed

lemma entry_needs_budget:
  "(\<exists>x. EnterLong x \<in> set (new_calls st (snd (applySignal cfg st sg b env))) \<or>
        EnterShort x \<in> set (new_calls st (snd (applySignal cfg st sg b env)))) \<longrightarrow>
   real (length (filter (\<lambda>t. t \<ge> endTime b - HOUR_MS) (flipHistory st)))
     < maxFlipsPerHour (risk cfg)"
proof -
  from applySignal_calls[of cfg st sg b env] obtain cs where
    cs: "executorCalls (snd (applySignal cfg st sg b env)) = executorCalls st @ cs"
      "(\<exists>x. EnterLong x \<in> set cs \<or> EnterShort x \<in> set cs) \<longrightarrow>
           real (length (filter (\<lambda>t. t \<ge> endTime b - HOUR_MS) (flipHistory st)))
             < maxFlipsPerHour (risk cfg)"
    by blast
  then have n: "new_calls st (snd (applySignal cfg st sg b env)) = cs"
    by (simp add: new_calls_def)
  show ?thesis unfolding n using cs by auto
qed


lemma close_then_enter_fst:
  "fst (close_then_enter st want order b env) = Inr Applied \<or>
   (\<exists>e. fst (close_then_enter st want order b env) = Inl e)"
proof (cases "flip_close st want b env")
  case (Pair e1 st2)
  show ?thesis
  proof (cases e1)
    case None
    obtain e2 st3 where e: "enterPosition st2 want order (enterResp env) (clockEnter env) = (e2, st3)"
      by (cases "enterPosition st2 want order (enterResp env) (clockEnter env)")
    show ?thesis by (cases e2) (simp_all add: close_then_enter_def Pair None e)
  next
    case (Some a)
    then show ?thesis by (simp add: close_then_enter_def Pair)
  qed
qed

lemma admit_never_cools:
  "fst (admit cfg st want order b env) \<noteq> Inr (Skipped LossCooldown)"
  using admit_cases[of cfg st want order b env] close_then_enter_fst[of "snd (canFlip cfg st (endTime b))" want order b env]
  by (elim disjE conjE exE) simp_all

lemma peach_gates_never_cool: "peach_gates cfg ind ty b \<noteq> Some LossCooldown"
  by (auto simp: peach_gates_def split: option.splits if_splits)

lemma cooldown_check_behaviour:
  assumes "2 \<le> consecutiveLosses st"
  shows "(clockGate env - lastLossTime st < 3600000 \<longrightarrow>
            applySignal cfg st (Some sg) b env = (Inr (Skipped LossCooldown), st)) \<and>
         (\<not> clockGate env - lastLossTime st < 3600000 \<longrightarrow>
            applySignal cfg st (Some sg) b env =
              applySignal cfg (st\<lparr>consecutiveLosses := 0\<rparr>) (Some sg) b env \<and>
            fst (applySignal cfg st (Some sg) b env) \<noteq> Inr (Skipped LossCooldown))"
proof (intro conjI impI)
  assume "clockGate env - lastLossTime st < 3600000"
  with assms show "applySignal cfg st (Some sg) b env = (Inr (Skipped LossCooldown), st)"
    by (simp add: applySignal_def)
next
  assume n: "\<not> clockGate env - lastLossTime st < 3600000"
  have ac: "after_cooldown (st\<lparr>consecutiveLosses := 0\<rparr>) = after_cooldown st"
    using assms by (simp add: after_cooldown_def)
  from n assms show "applySignal cfg st (Some sg) b env =
              applySignal cfg (st\<lparr>consecutiveLosses := 0\<rparr>) (Some sg) b env"
    by (cases "strategy_gates cfg (engine env) (sig_type sg) b") (simp_all add: applySignal_def ac)
  from applySignal_cases[of cfg st sg b env] n
  consider (gate) r where "applySignal cfg st (Some sg) b env = (Inr (Skipped r), after_cooldown st)"
      "strategy_gates cfg (engine env) (sig_type sg) b = Some r"
    | (admit) "applySignal cfg st (Some sg) b env =
        admit cfg (after_cooldown st) (sig_type sg) (make_order cfg sg b) b env"
    by (elim disjE conjE exE) simp_all
  then show "fst (applySignal cfg st (Some sg) b env) \<noteq> Inr (Skipped LossCooldown)"
  proof cases
    case gate
    then show ?thesis using peach_gates_never_cool[of cfg "engine env" "sig_type sg" b]
      by (auto simp: strategy_gates_def split: if_splits)
  next
    case admit
    then show ?thesis by (simp add: admit_never_cools)
  qed
qed

lemma admit_alt:
  "admit cfg st want order b env =
     (if pos_side (position st) = side_of want then (Inr Ignored, st)
      else if lastPositionCloseTime st > 0 \<and>
              endTime b - lastPositionCloseTime st < 2 * timeframeMs cfg
      then (Inr (Skipped CloseCooldown), st)
      else if \<not> fst (canFlip cfg st (endTime b))
      then (Inr (Skipped FlipBudgetExhausted), snd (canFlip cfg st (endTime b)))
      else if pos_side (position st) = opposite_of want \<and>
              endTime b - lastPositionEntryTime st < minHoldTimeMs
      then (Inr (Skipped MinHoldTimeNotMet), snd (canFlip cfg st (endTime b)))
      else close_then_enter (snd (canFlip cfg st (endTime b))) want order b env)"
proof (cases "canFlip cfg st (endTime b)")
  case (Pair ok st1)
  have f: "position st1 = position st" "lastPositionEntryTime st1 = lastPositionEntryTime st"
    using canFlip_fields(2,4)[of cfg st "endTime b"] by (simp_all add: Pair)
  show ?thesis
    by (cases ok) (simp_all add: admit_def Let_def Pair f del: canFlip_fields)
qed

lemma with_budget_fields [simp]:
  "isPeachHybrid (with_budget cfg n) = isPeachHybrid cfg"
  "timeframeMs (with_budget cfg n) = timeframeMs cfg"
  "strategy_gates (with_budget cfg n) ind ty b = strategy_gates cfg ind ty b"
  "make_order (with_budget cfg n) s b = make_order cfg s b"
  "snd (canFlip (with_budget cfg n) st ts) = snd (canFlip cfg st ts)"
  "maxFlipsPerHour (risk (with_budget cfg n)) = n"
  by (simp_all add: with_budget_def strategy_gates_def peach_gates_def make_order_def canFlip_def Let_def)


lemma side_of_simps [simp]:
  "side_of want \<noteq> Flat" "Flat \<noteq> side_of want" "opposite_of want \<noteq> side_of want"
  "side_of want \<noteq> opposite_of want"
  by (cases want; simp add: side_of_def opposite_of_def)+

lemma closePosition_flipHistory [simp]:
  "flipHistory (snd (closePosition st why m resp now)) = flipHistory st"
  by (simp add: closePosition_def Let_def split: exec_result.splits)

lemma closePosition_side:
  "fst (closePosition st why m resp now) = None \<Longrightarrow>
   pos_side (position (snd (closePosition st why m resp now))) = Flat"
  by (auto simp: closePosition_def Let_def flat_position_def split: exec_result.splits if_splits)

lemma flip_close_result:
  assumes "fst (flip_close st want b env) = None"
  shows "flipHistory (snd (flip_close st want b env)) = flipHistory st"
    and "pos_side (position st) \<noteq> side_of want \<Longrightarrow>
         pos_side (position (snd (flip_close st want b env))) \<noteq> side_of want"
proof -
  let ?why = "if want = SLong then ''flip-long'' else ''flip-short''"
  let ?c = "closePosition st ?why (Some [(''price'', b_close b)]) (closeResp env) (clockClose env)"
  show "flipHistory (snd (flip_close st want b env)) = flipHistory st"
    by (cases "pos_side (position st) = opposite_of want") (simp_all add: flip_close_def)
  assume s: "pos_side (position st) \<noteq> side_of want"
  show "pos_side (position (snd (flip_close st want b env))) \<noteq> side_of want"
  proof (cases "pos_side (position st) = opposite_of want")
    case True
    then have e: "flip_close st want b env = ?c" by (simp add: flip_close_def)
    from assms have "fst ?c = None" by (simp only: e)
    from closePosition_side[OF this] show ?thesis by (simp only: e) simp
  next
    case False
    with s show ?thesis by (simp add: flip_close_def)
  qed
qed

lemma enterPosition_result:
  assumes "fst (enterPosition st want order resp now) = None"
  shows "flipHistory (snd (enterPosition st want order resp now)) = flipHistory st \<and>
         position (snd (enterPosition st want order resp now)) = position st \<or>
         flipHistory (snd (enterPosition st want order resp now)) = flipHistory st @ [timestamp order] \<and>
         pos_side (position (snd (enterPosition st want order resp now))) = side_of want"
proof (cases "jlt (Fin (usdtBalance st)) (jdiv (Fin (ti_size order)) (Fin (leverage order)))")
  case True
  then show ?thesis by (simp add: enterPosition_def)
next
  case False
  show ?thesis
  proof (cases resp)
    case Resolved
    with False show ?thesis by (simp add: enterPosition_def Let_def recordFlip_def)
  next
    case (Rejected msg)
    with False assms show ?thesis
      by (cases "is_balance_rejection msg") (simp_all add: enterPosition_def Let_def)
  qed
qed

lemma close_then_enter_applied:
  assumes r: "close_then_enter st want order b env = (Inr Applied, st')"
    and s': "pos_side (position st') = side_of want"
    and s: "pos_side (position st) \<noteq> side_of want"
  shows "flipHistory st' = flipHistory st @ [timestamp order]"
proof (cases "flip_close st want b env")
  case (Pair e1 st2)
  show ?thesis
  proof (cases e1)
    case (Some a)
    with r show ?thesis by (simp add: close_then_enter_def Pair)
  next
    case None
    then have fc: "fst (flip_close st want b env) = None" "snd (flip_close st want b env) = st2"
      by (simp_all add: Pair)
    from flip_close_result[OF fc(1)] s
    have st2: "flipHistory st2 = flipHistory st" "pos_side (position st2) \<noteq> side_of want"
      by (simp_all add: fc(2))
    obtain e2 st3 where e: "enterPosition st2 want order (enterResp env) (clockEnter env) = (e2, st3)"
      by (cases "enterPosition st2 want order (enterResp env) (clockEnter env)")
    show ?thesis
    proof (cases e2)
      case (Some a)
      with r show ?thesis by (simp add: close_then_enter_def Pair None e)
    next
      case n2: None
      with r have st3: "st3 = st'" by (simp add: close_then_enter_def Pair None e)
      from enterPosition_result[of st2 want order "enterResp env" "clockEnter env"]
      show ?thesis using s' st2 by (auto simp: e n2 st3)
    qed
  qed
qed

lemma canFlip_big_budget:
  "fst (canFlip (with_budget cfg (real (length (flipHistory st)) + 1)) st ts)"
proof -
  have "length (filter (\<lambda>t. t \<ge> ts - HOUR_MS) (flipHistory st)) \<le> length (flipHistory st)"
    by (rule length_filter_le)
  then show ?thesis by (simp del: length_filter_le)
qed

lemma otherwise_valid_outcome:
  assumes v: "otherwise_valid cfg st x"
  shows "(real (length (recent_flips st (endTime (gi_bar x)))) < maxFlipsPerHour (risk cfg) \<longrightarrow>
            fst (deliver cfg st x) = Inr Applied \<and>
            flipHistory (snd (deliver cfg st x)) =
              recent_flips st (endTime (gi_bar x)) @ [endTime (gi_bar x)]) \<and>
         (\<not> real (length (recent_flips st (endTime (gi_bar x)))) < maxFlipsPerHour (risk cfg) \<longrightarrow>
            fst (deliver cfg st x) = Inr (Skipped FlipBudgetExhausted) \<and>
            flipHistory (snd (deliver cfg st x)) = recent_flips st (endTime (gi_bar x)))"
proof -
  define sl where "sl = st\<lparr>lastBar := Some (gi_bar x)\<rparr>"
  define s0 where "s0 = after_cooldown sl"
  define B where "B = with_budget cfg (real (length (flipHistory st)) + 1)"
  define sg where "sg = gi_signal x"
  define b where "b = gi_bar x"
  define env where "env = gi_env x"
  define want where "want = sig_type sg"
  define order where "order = make_order cfg sg b"
  define s1 where "s1 = snd (canFlip cfg s0 (endTime b))"
  have fh: "flipHistory s0 = flipHistory st" "flipHistory sl = flipHistory st"
    by (simp_all add: s0_def sl_def)
  have s1fh: "flipHistory s1 = recent_flips st (endTime b)"
    by (simp add: s1_def recent_flips_def fh)
  have okB: "fst (canFlip B s0 (endTime b))"
    using canFlip_big_budget[of cfg s0 "endTime b"] by (simp add: B_def fh)
  have s1B: "snd (canFlip B s0 (endTime b)) = s1" by (simp add: B_def s1_def)
  obtain st' where d: "applySignal B sl (Some sg) b env = (Inr Applied, st')"
    and side': "pos_side (position st') = side_of want"
    using v by (cases "applySignal B sl (Some sg) b env")
      (simp add: otherwise_valid_def deliver_def B_def sl_def sg_def b_def env_def want_def)
  have nocool: "(2 \<le> consecutiveLosses sl \<and> clockGate env - lastLossTime sl < 3600000) = False"
  proof (rule ccontr)
    assume "\<not> ?thesis"
    then have t: "(2 \<le> consecutiveLosses sl \<and> clockGate env - lastLossTime sl < 3600000) = True"
      by simp
    from d show False by (simp add: applySignal_alt t)
  qed
  have nogate: "strategy_gates cfg (engine env) (sig_type sg) b = None"
  proof (cases "strategy_gates cfg (engine env) (sig_type sg) b")
    case (Some r)
    with d show ?thesis by (simp add: applySignal_alt B_def nocool)
  qed simp
  have adB: "admit B s0 want order b env = (Inr Applied, st')"
    using d by (simp add: applySignal_alt B_def s0_def want_def order_def nocool nogate)
  have c1: "(pos_side (position s0) = side_of want) = False"
  proof (rule ccontr)
    assume "\<not> ?thesis"
    then have t: "(pos_side (position s0) = side_of want) = True" by simp
    from adB show False by (simp add: admit_alt t)
  qed
  have c2: "(lastPositionCloseTime s0 > 0 \<and>
              endTime b - lastPositionCloseTime s0 < 2 * timeframeMs cfg) = False"
  proof (rule ccontr)
    assume "\<not> ?thesis"
    then have t: "(lastPositionCloseTime s0 > 0 \<and>
              endTime b - lastPositionCloseTime s0 < 2 * timeframeMs cfg) = True" by simp
    from adB show False by (simp add: admit_alt B_def c1 t)
  qed
  have c4: "(pos_side (position s0) = opposite_of want \<and>
              endTime b - lastPositionEntryTime s0 < minHoldTimeMs) = False"
  proof (rule ccontr)
    assume "\<not> ?thesis"
    then have t: "(pos_side (position s0) = opposite_of want \<and>
              endTime b - lastPositionEntryTime s0 < minHoldTimeMs) = True" by simp
    from adB okB show False by (simp add: admit_alt B_def c1 c2 t del: canFlip_fields(7))
  qed
  have cte: "close_then_enter s1 want order b env = (Inr Applied, st')"
    using adB okB s1B by (simp add: admit_alt B_def c1 c2 c4 del: canFlip_fields(7))
  have s1side: "pos_side (position s1) \<noteq> side_of want" using c1 by (simp add: s1_def)
  have ord: "timestamp order = endTime b" by (simp add: order_def make_order_def)
  have app: "flipHistory st' = recent_flips st (endTime b) @ [endTime b]"
    using close_then_enter_applied[OF cte side' s1side] by (simp add: s1fh ord)
  have del: "deliver cfg st x = admit cfg s0 want order b env"
  proof -
    have "deliver cfg st x = applySignal cfg sl (Some sg) b env"
      by (simp add: deliver_def sl_def sg_def b_def env_def)
    also have "\<dots> = admit cfg s0 want order b env"
      by (simp add: applySignal_alt nocool nogate s0_def want_def order_def)
    finally show ?thesis .
  qed
  have ok: "fst (canFlip cfg s0 (endTime b)) \<longleftrightarrow>
            real (length (recent_flips st (endTime b))) < maxFlipsPerHour (risk cfg)"
    by (simp add: recent_flips_def fh)
  show ?thesis
  proof (intro conjI impI)
    assume a: "real (length (recent_flips st (endTime (gi_bar x)))) < maxFlipsPerHour (risk cfg)"
    then have "fst (canFlip cfg s0 (endTime b))" using ok by (simp add: b_def)
    then have "deliver cfg st x = (Inr Applied, st')"
      using cte by (simp add: del admit_alt s1_def c1 c2 c4 del: canFlip_fields(7))
    then show "fst (deliver cfg st x) = Inr Applied"
      and "flipHistory (snd (deliver cfg st x)) =
              recent_flips st (endTime (gi_bar x)) @ [endTime (gi_bar x)]"
      using app by (simp_all add: b_def)
  next
    assume a: "\<not> real (length (recent_flips st (endTime (gi_bar x)))) < maxFlipsPerHour (risk cfg)"
    then have "\<not> fst (canFlip cfg s0 (endTime b))" using ok by (simp add: b_def)
    then have "deliver cfg st x = (Inr (Skipped FlipBudgetExhausted), s1)"
      by (simp add: del admit_alt s1_def c1 c2 del: canFlip_fields(7))
    then show "fst (deliver cfg st x) = Inr (Skipped FlipBudgetExhausted)"
      and "flipHistory (snd (deliver cfg st x)) = recent_flips st (endTime (gi_bar x))"
      using s1fh by (simp_all add: b_def)
  qed
qed

lemma recent_flips_window:
  assumes T: "\<forall>a\<in>T. \<forall>b\<in>T. a - b \<le> HOUR_MS"
    and ts: "ts \<in> T"
    and inv: "\<forall>t\<in>set (flipHistory st). t \<in> T \<or> (\<forall>a\<in>T. t < a - HOUR_MS)"
  shows "recent_flips st ts = filter (\<lambda>t. t \<in> T) (flipHistory st)"
  unfolding recent_flips_def
proof (rule filter_cong[OF refl])
  fix t assume t: "t \<in> set (flipHistory st)"
  show "(ts - HOUR_MS \<le> t) = (t \<in> T)"
  proof (cases "t \<in> T")
    case True
    with T ts have "ts - t \<le> HOUR_MS" by blast
    with True show ?thesis by simp
  next
    case False
    with inv t have "\<forall>a\<in>T. t < a - HOUR_MS" by blast
    with ts have "t < ts - HOUR_MS" by blast
    with False show ?thesis by simp
  qed
qed

lemma run_signals_Cons:
  "run_signals cfg st (x # xs) =
     (fst (deliver cfg st x) # fst (run_signals cfg (snd (deliver cfg st x)) xs),
      snd (run_signals cfg (snd (deliver cfg st x)) xs))"
  by (simp split: prod.splits)

lemma flip_scenario_general:
  fixes T :: "int set"
  assumes N: "maxFlipsPerHour (risk cfg) = real N"
    and T: "\<forall>a\<in>T. \<forall>b\<in>T. a - b \<le> HOUR_MS"
  shows "\<lbrakk>\<forall>x\<in>set xs. endTime (gi_bar x) \<in> T;
          \<forall>t\<in>set (flipHistory st). t \<in> T \<or> (\<forall>a\<in>T. t < a - HOUR_MS);
          length (filter (\<lambda>t. t \<in> T) (flipHistory st)) = k; k \<le> N;
          length xs = N - k + 1; all_otherwise_valid cfg st xs\<rbrakk>
    \<Longrightarrow> fst (run_signals cfg st xs) =
          replicate (N - k) (Inr Applied) @ [Inr (Skipped FlipBudgetExhausted)] \<and>
        flipHistory (snd (run_signals cfg st xs)) =
          filter (\<lambda>t. t \<in> T) (flipHistory st) @
          map (\<lambda>x. endTime (gi_bar x)) (take (N - k) xs)"
proof (induction xs arbitrary: st k)
  case Nil
  then show ?case by simp
next
  case (Cons x xs)
  let ?ts = "endTime (gi_bar x)"
  let ?F = "filter (\<lambda>t. t \<in> T) (flipHistory st)"
  from Cons.prems(1) have ts: "?ts \<in> T" by simp
  have rf: "recent_flips st ?ts = ?F"
    by (rule recent_flips_window[OF T ts Cons.prems(2)])
  from Cons.prems(6) have v: "otherwise_valid cfg st x"
    and vs: "all_otherwise_valid cfg (snd (deliver cfg st x)) xs" by simp_all
  note A = otherwise_valid_outcome[OF v, unfolded rf N Cons.prems(3)]
  show ?case
  proof (cases "k < N")
    case True
    then have a: "fst (deliver cfg st x) = Inr Applied"
      and fh: "flipHistory (snd (deliver cfg st x)) = ?F @ [?ts]"
      using A by simp_all
    have inv': "\<forall>t\<in>set (flipHistory (snd (deliver cfg st x))). t \<in> T \<or> (\<forall>a\<in>T. t < a - HOUR_MS)"
      using ts by (auto simp: fh)
    have cnt: "length (filter (\<lambda>t. t \<in> T) (flipHistory (snd (deliver cfg st x)))) = Suc k"
      using ts Cons.prems(3) by (simp add: fh)
    have len: "length xs = N - Suc k + 1" using Cons.prems(5) True by simp
    have xsT: "\<forall>x\<in>set xs. endTime (gi_bar x) \<in> T" using Cons.prems(1) by simp
    from Cons.IH[OF xsT inv' cnt _ len vs] True
    have ih: "fst (run_signals cfg (snd (deliver cfg st x)) xs) =
          replicate (N - Suc k) (Inr Applied) @ [Inr (Skipped FlipBudgetExhausted)]"
      "flipHistory (snd (run_signals cfg (snd (deliver cfg st x)) xs)) =
          filter (\<lambda>t. t \<in> T) (flipHistory (snd (deliver cfg st x))) @
          map (\<lambda>x. endTime (gi_bar x)) (take (N - Suc k) xs)"
      by simp_all
    have nk: "N - k = Suc (N - Suc k)" using True by simp
    show ?thesis
      unfolding run_signals_Cons using ts by (simp add: a ih fh nk)
  next
    case False
    with Cons.prems(4) have kN: "k = N" by simp
    with Cons.prems(5) have xs: "xs = []" by simp
    from A kN have "fst (deliver cfg st x) = Inr (Skipped FlipBudgetExhausted)"
      and "flipHistory (snd (deliver cfg st x)) = ?F" by simp_all
    then show ?thesis unfolding run_signals_Cons by (simp add: xs kN)
  qed
qed

lemma budget_run:
  assumes N: "maxFlipsPerHour (risk cfg) = real N"
    and len: "length xs = N + 1"
    and hour: "\<forall>x\<in>set xs. \<forall>y\<in>set xs. endTime (gi_bar x) - endTime (gi_bar y) \<le> HOUR_MS"
    and old: "\<forall>t\<in>set (flipHistory st). \<forall>x\<in>set xs. t < endTime (gi_bar x) - HOUR_MS"
    and valid: "all_otherwise_valid cfg st xs"
  shows "fst (run_signals cfg st xs) =
           replicate N (Inr Applied) @ [Inr (Skipped FlipBudgetExhausted)] \<and>
         flipHistory (snd (run_signals cfg st xs)) =
           map (\<lambda>x. endTime (gi_bar x)) (take N xs)"
proof -
  define T where "T = (\<lambda>x. endTime (gi_bar x)) ` set xs"
  have ne: "xs \<noteq> []" using len by auto
  have T: "\<forall>a\<in>T. \<forall>b\<in>T. a - b \<le> HOUR_MS" using hour by (auto simp: T_def)
  have xT: "\<forall>x\<in>set xs. endTime (gi_bar x) \<in> T" by (simp add: T_def)
  have oldT: "\<forall>t\<in>set (flipHistory st). \<forall>a\<in>T. t < a - HOUR_MS" using old by (auto simp: T_def)
  then have inv: "\<forall>t\<in>set (flipHistory st). t \<in> T \<or> (\<forall>a\<in>T. t < a - HOUR_MS)" by blast
  have notin: "\<forall>t\<in>set (flipHistory st). t \<notin> T"
  proof
    fix t assume t: "t \<in> set (flipHistory st)"
    show "t \<notin> T"
    proof
      assume "t \<in> T"
      with oldT t have "t < t - HOUR_MS" by blast
      then show False by (simp add: HOUR_MS_def)
    qed
  qed
  then have F: "filter (\<lambda>t. t \<in> T) (flipHistory st) = []" by (simp add: filter_empty_conv)
  from flip_scenario_general[OF N T xT inv _ _ _ valid, of 0] F len
  show ?thesis by simp
qed

lemmas gate_eval =
  applySignal_def strategy_gates_def after_cooldown_def admit_def canFlip_def
  close_then_enter_def flip_close_def closePosition_def enterPosition_def recordFlip_def
  make_order_def deliver_def otherwise_valid_def with_budget_def new_calls_def recent_flips_def
  exit_price_def close_profit_pct_def close_time_def or_else_def or_else_time_def
  is_balance_rejection_def is_reduce_only_rejection_def setPendingOrder_def updateLocalState_def
  side_of_def opposite_of_def HOUR_MS_def minHoldTimeMs_def Let_def watermellon_app_def
  example_risk_def bar_at_def calm_env_def no_indicators_def example_signal_def signal_at_def
  funded_bot_def initial_bot_def initial_manager_def flat_position_def

theorem order_size_witness:
  "maxPositionSize (risk watermellon_app) < 1 \<and>
   new_calls funded_bot
     (snd (applySignal watermellon_app funded_bot (Some (example_signal SLong))
             (bar_at 1000000 100) (calm_env 1000000))) =
     [EnterLong \<lparr>ti_side = SLong, ti_size = 1, leverage = 5, price = 100,
                  signalReason = ''long-trigger'', timestamp = 1000000\<rparr>]"
  using order_size[of watermellon_app funded_bot "Some (example_signal SLong)"
      "bar_at 1000000 100" "calm_env 1000000"]
  by (simp add: gate_eval)

text \<open>
  Claim C5: with two or more consecutive losses counted, \<open>applySignal\<close> skips every
  signal with the cooldown reason, changing nothing, while less than an hour has passed
  since the last loss; a signal that arrives later is treated as if the counter were zero
  and is not skipped for the cooldown. (A close at a loss adds one to the counter and notes
  the time; any other completed close sets the counter to zero.)
\<close>

theorem loss_cooldown:
  assumes "2 \<le> consecutiveLosses st"
  shows "(clockGate env - lastLossTime st < 3600000 \<longrightarrow>
            applySignal cfg st (Some sg) b env = (Inr (Skipped LossCooldown), st)) \<and>
         (\<not> clockGate env - lastLossTime st < 3600000 \<longrightarrow>
            applySignal cfg st (Some sg) b env =
              applySignal cfg (st\<lparr>consecutiveLosses := 0\<rparr>) (Some sg) b env \<and>
            fst (applySignal cfg st (Some sg) b env) \<noteq> Inr (Skipped LossCooldown)) \<and>
         (pos_side (position s) \<noteq> Flat \<longrightarrow>
            (close_profit_pct (position s) (exit_price (position s) m) < 0 \<longrightarrow>
               consecutiveLosses (snd (closePosition s why m Resolved now)) =
                 consecutiveLosses s + 1 \<and>
               lastLossTime (snd (closePosition s why m Resolved now)) = now) \<and>
            (\<not> close_profit_pct (position s) (exit_price (position s) m) < 0 \<longrightarrow>
               consecutiveLosses (snd (closePosition s why m Resolved now)) = 0))"
proof -
  note g = cooldown_check_behaviour[OF assms, of env cfg sg b]
  have c: "pos_side (position s) \<noteq> Flat \<longrightarrow>
            (close_profit_pct (position s) (exit_price (position s) m) < 0 \<longrightarrow>
               consecutiveLosses (snd (closePosition s why m Resolved now)) =
                 consecutiveLosses s + 1 \<and>
               lastLossTime (snd (closePosition s why m Resolved now)) = now) \<and>
            (\<not> close_profit_pct (position s) (exit_price (position s) m) < 0 \<longrightarrow>
               consecutiveLosses (snd (closePosition s why m Resolved now)) = 0)"
    by (simp add: closePosition_def Let_def)
  show ?thesis
    by (intro conjI) (rule conjunct1[OF g], rule conjunct2[OF g], rule c)
qed

theorem loss_cooldown_witness:
  "2 \<le> consecutiveLosses cooling_bot \<and>
   clockGate (calm_env 2000) - lastLossTime cooling_bot < 3600000 \<and>
   applySignal watermellon_app cooling_bot (Some (example_signal SLong)) (bar_at 2000 100)
     (calm_env 2000) = (Inr (Skipped LossCooldown), cooling_bot) \<and>
   \<not> clockGate (calm_env 3601000) - lastLossTime cooling_bot < 3600000 \<and>
   fst (applySignal watermellon_app cooling_bot (Some (example_signal SLong))
          (bar_at 3601000 100) (calm_env 3601000)) = Inr Applied \<and>
   consecutiveLosses (snd (applySignal watermellon_app cooling_bot (Some (example_signal SLong))
          (bar_at 3601000 100) (calm_env 3601000))) = 0 \<and>
   pos_side (position long_bot) \<noteq> Flat \<and>
   close_profit_pct (position long_bot) (exit_price (position long_bot) (Some [(''close'', 98)])) < 0 \<and>
   consecutiveLosses (snd (closePosition long_bot ''stop-loss'' (Some [(''close'', 98)]) Resolved 7)) = 1 \<and>
   lastLossTime (snd (closePosition long_bot ''stop-loss'' (Some [(''close'', 98)]) Resolved 7)) = 7"
  using loss_cooldown[of cooling_bot "calm_env 2000" watermellon_app "example_signal SLong"
      "bar_at 2000 100" long_bot "Some [(''close'', 98)]" "''stop-loss''" 7]
    loss_cooldown[of cooling_bot "calm_env 3601000" watermellon_app "example_signal SLong"
      "bar_at 3601000 100" long_bot "Some [(''close'', 98)]" "''stop-loss''" 7]
  by (simp add: gate_eval cooling_bot_def long_bot_def)

text \<open>
  Claim C3: with \<open>maxFlipsPerHour = N\<close>, of \<open>N + 1\<close> signals that lie within one hour
  of each other and are each valid but for the flip budget, the first \<open>N\<close> are applied,
  their times making up the flip history, and the last is skipped with "Flip budget
  exhausted" (no flip of the hour before them being on record at the start). And whenever
  \<open>applySignal\<close> asks the executor for an entry, fewer than \<open>maxFlipsPerHour\<close> flip
  times lie in the hour up to the bar's end.
\<close>

theorem flip_budget:
  assumes "maxFlipsPerHour (risk cfg) = real N"
    and "length xs = N + 1"
    and "\<forall>x\<in>set xs. \<forall>y\<in>set xs. endTime (gi_bar x) - endTime (gi_bar y) \<le> HOUR_MS"
    and "\<forall>t\<in>set (flipHistory st). \<forall>x\<in>set xs. t < endTime (gi_bar x) - HOUR_MS"
    and "all_otherwise_valid cfg st xs"
  shows "fst (run_signals cfg st xs) =
           replicate N (Inr Applied) @ [Inr (Skipped FlipBudgetExhausted)] \<and>
         flipHistory (snd (run_signals cfg st xs)) =
           map (\<lambda>x. endTime (gi_bar x)) (take N xs) \<and>
         ((\<exists>x. EnterLong x \<in> set (new_calls s (snd (applySignal cfg s sg b env))) \<or>
               EnterShort x \<in> set (new_calls s (snd (applySignal cfg s sg b env)))) \<longrightarrow>
            real (length (recent_flips s (endTime b))) < maxFlipsPerHour (risk cfg))"
  using budget_run[OF assms] entry_needs_budget[of s cfg sg b env]
  unfolding recent_flips_def by (intro conjI) simp_all

theorem flip_budget_witness:
  "maxFlipsPerHour (risk watermellon_app) = real 2 \<and> length three_flips = 2 + 1 \<and>
   map (\<lambda>x. endTime (gi_bar x)) three_flips = [1000000, 1300000, 1600000] \<and>
   1600000 - 1000000 \<le> HOUR_MS \<and> flipHistory funded_bot = [] \<and>
   all_otherwise_valid watermellon_app funded_bot three_flips \<and>
   fst (run_signals watermellon_app funded_bot three_flips) =
     [Inr Applied, Inr Applied, Inr (Skipped FlipBudgetExhausted)] \<and>
   flipHistory (snd (run_signals watermellon_app funded_bot three_flips)) = [1000000, 1300000]"
  using flip_budget[of watermellon_app 2 three_flips funded_bot]
  by (simp add: gate_eval three_flips_def)

section \<open>Verification: the protective exits\<close>


lemma track_extremes_side [simp]: "pos_side (position (track_extremes st c)) = pos_side (position st)"
  by (simp add: track_extremes_def)






section \<open>Verification: the strategy engines\<close>



















end
